theory Spec2Isabelle
  imports Main "HOL-Library.AList" "HOL-Library.Sublist"
begin

section \<open>Constants of \<^verbatim>\<open>pkg/config\<close>\<close>

definition ClusterLabel :: string where
  "ClusterLabel = ''cloudpilot.ai/svclink-cluster''"

definition ServiceNameLabel :: string where
  "ServiceNameLabel = ''kubernetes.io/service-name''"

definition ManagedByLabel :: string where
  "ManagedByLabel = ''endpointslice.kubernetes.io/managed-by''"

definition ManagedByValue :: string where
  "ManagedByValue = ''svclink.cloudpilot.ai''"

definition SyncAnnotation :: string where
  "SyncAnnotation = ''cloudpilot.ai/svclink''"

text \<open>\<^verbatim>\<open>config.Config\<close>; the interval is a number of seconds.\<close>

record Config =
  SyncInterval :: nat
  IncludedNamespaces :: "string list"
  SyncServicesToLocalCluster :: bool

text \<open>
  \<^verbatim>\<open>api.NamespaceSystem\<close> comes from \<^verbatim>\<open>k8s.io/kubernetes/pkg/apis/core\<close>; the repository's
  own comments and the message of \<^verbatim>\<open>runController\<close> give its value.
\<close>

definition NamespaceSystem :: string where
  "NamespaceSystem = ''kube-system''"

section \<open>The filter policy of a ClusterLink (\<^verbatim>\<open>pkg/apis/svclink/v1alpha1\<close>)\<close>

record ClusterLinkSpec =
  Enabled :: bool
  Kubeconfig :: string
  ExcludedNamespaces :: "string list"
  IncludedNamespaces :: "string list"
  ExcludedServices :: "string list"
  ExcludedServiceNames :: "string list"

text \<open>
  A \<^verbatim>\<open>sets.Set[string]\<close> is a finite set of strings; \<^verbatim>\<open>sets.New(xs...)\<close> is \<open>set xs\<close>,
  \<^verbatim>\<open>Insert\<close> is \<open>insert\<close>, \<^verbatim>\<open>Has\<close> is membership and \<^verbatim>\<open>Len() > 0\<close> is non-emptiness.
\<close>

definition ToExcludedNamespaceSet :: "ClusterLinkSpec \<Rightarrow> string set" where
  "ToExcludedNamespaceSet cls = insert NamespaceSystem (set (ExcludedNamespaces cls))"

definition ToIncludedNamespaceSet :: "ClusterLinkSpec \<Rightarrow> string set" where
  "ToIncludedNamespaceSet cls = set (IncludedNamespaces cls)"

definition ToExcludedServiceSet :: "ClusterLinkSpec \<Rightarrow> string set" where
  "ToExcludedServiceSet cls = set (ExcludedServices cls)"

definition ToExcludedServiceNameSet :: "ClusterLinkSpec \<Rightarrow> string set" where
  "ToExcludedServiceNameSet cls = insert ''kubernetes'' (set (ExcludedServiceNames cls))"

definition ShouldExcludeNamespace ::
  "ClusterLinkSpec \<Rightarrow> string \<Rightarrow> string set \<Rightarrow> string set \<Rightarrow> bool" where
  "ShouldExcludeNamespace cls namespace excludedNS includedNS =
     (if namespace \<in> excludedNS then True
      else if includedNS \<noteq> {} \<and> namespace \<notin> includedNS then True
      else False)"

definition ShouldExcludeService ::
  "ClusterLinkSpec \<Rightarrow> string \<Rightarrow> string \<Rightarrow> string set \<Rightarrow> string set \<Rightarrow> bool" where
  "ShouldExcludeService cls namespace serviceName excludedSvcSet excludedSvcNameSet =
     (let fullName = namespace @ ''/'' @ serviceName in
      if fullName \<in> excludedSvcSet then True
      else if serviceName \<in> excludedSvcNameSet then True
      else False)"

section \<open>Kubernetes objects, as far as the program reads and writes them\<close>

text \<open>
  A Go \<^verbatim>\<open>map[string]string\<close> of labels is an association list read with \<open>map_of\<close> and
  written with \<open>AList.update\<close>; the nil map and the empty map are both \<open>[]\<close>.
\<close>

type_synonym labels = "(string \<times> string) list"

record OwnerReference =
  APIVersion :: string
  Kind :: string
  Name :: string
  UID :: string

text \<open>\<^verbatim>\<open>metav1.ObjectMeta\<close>, embedded in every object.\<close>

record ObjectMeta =
  Name :: string
  Namespace :: string
  UID :: string
  Labels :: labels
  OwnerReferences :: "OwnerReference list"

record EndpointConditions =
  Ready :: "bool option"
  Serving :: "bool option"
  Terminating :: "bool option"

record Endpoint =
  Addresses :: "string list"
  Conditions :: EndpointConditions
  Hostname :: "string option"

record EndpointPort =
  Name :: "string option"
  Port :: "int option"

record EndpointSlice = ObjectMeta +
  AddressType :: string
  Endpoints :: "Endpoint list"
  Ports :: "EndpointPort list"

text \<open>
  \<^verbatim>\<open>corev1.Service\<close>: the program reads its name, namespace, UID, labels and
  annotations, and the ports and the selector of its spec; a port is its name and number.
\<close>

type_synonym ServicePort = "string \<times> int"

record Service = ObjectMeta +
  Annotations :: labels
  SpecPorts :: "ServicePort list"
  SpecSelector :: labels
  ClusterIP :: string

section \<open>Errors\<close>

text \<open>
  A Go \<^verbatim>\<open>error\<close> is the reason the API machinery attaches to it and its message.
  \<^verbatim>\<open>fmt.Errorf("...: %w", err)\<close> prefixes the message and keeps the wrapped error, so
  \<^verbatim>\<open>apierrors.IsNotFound\<close> still sees its reason; \<^verbatim>\<open>%v\<close> formats the message.
\<close>

datatype StatusReason = StatusReasonNotFound | StatusReasonAlreadyExists | StatusReasonUnknown

record error =
  Reason :: StatusReason
  Message :: string

definition IsNotFound :: "error \<Rightarrow> bool" where
  "IsNotFound err = (Reason err = StatusReasonNotFound)"

definition Errorf_w :: "string \<Rightarrow> error \<Rightarrow> error" where
  "Errorf_w msg err = err\<lparr>Message := msg @ Message err\<rparr>"

section \<open>A remote cluster, as its client answers (\<^verbatim>\<open>kubernetes.Interface\<close>)\<close>

text \<open>
  The program only reads from a remote cluster. A client is what the four calls the
  program makes return: the server version, the namespace names, the services of a
  namespace, and the EndpointSlices of a namespace under a label selector. Nothing is
  assumed of the answers.
\<close>

record Clientset =
  ServerVersion :: "error + string"
  ListNamespaces :: "error + string list"
  ListServices :: "string \<Rightarrow> error + Service list"
  ListEndpointSlices :: "string \<Rightarrow> string \<Rightarrow> error + EndpointSlice list"

section \<open>ClusterLink objects and the per-cycle cluster table\<close>

datatype ConditionStatus = ConditionTrue | ConditionFalse | ConditionUnknown

datatype ClusterLinkConditionType = ClusterLinkReady | ClusterLinkError

text \<open>Times are instants of a clock, counted as natural numbers.\<close>

record ClusterLinkCondition =
  Type :: ClusterLinkConditionType
  Status :: ConditionStatus
  LastTransitionTime :: nat
  Reason :: string
  Message :: string

record ClusterLinkStatus =
  Connected :: bool
  LastConnected :: "nat option"
  Error :: string
  Version :: string
  Conditions :: "ClusterLinkCondition list"

record ClusterLink = ObjectMeta +
  Spec :: ClusterLinkSpec
  Status :: ClusterLinkStatus

text \<open>\<^verbatim>\<open>clusterlink.ClusterInfo\<close>\<close>

record ClusterInfo =
  Name :: string
  Enabled :: bool
  Client :: Clientset
  ClusterLink :: ClusterLink

text \<open>
  The Go \<^verbatim>\<open>map[string]*ClusterInfo\<close> is an association list: \<open>map_of\<close> is the lookup
  \<^verbatim>\<open>clusterInfos[name]\<close>, \<open>AList.update\<close> the assignment, and the order of the list is
  the order in which a \<^verbatim>\<open>range\<close> over the map happens to visit it.
\<close>

type_synonym clusterInfos = "(string \<times> ClusterInfo) list"

section \<open>The endpoint aggregator (\<^verbatim>\<open>pkg/aggregator\<close>)\<close>

record ClusterEndpoints =
  ClusterName :: string
  Endpoints :: "Endpoint list"
  Ports :: "EndpointPort list"

text \<open>
  The first loop of \<^verbatim>\<open>getEndpointsFromCluster\<close>: a slice that has the key
  \<^verbatim>\<open>config.ClusterLabel\<close> among its labels is skipped; the endpoints of every other slice
  are appended, and the ports are those of the first such slice that has any.
\<close>

fun collectSlices ::
  "EndpointSlice list \<Rightarrow> Endpoint list \<Rightarrow> EndpointPort list \<Rightarrow> Endpoint list \<times> EndpointPort list"
where
  "collectSlices [] allEndpoints ports = (allEndpoints, ports)"
| "collectSlices (slice # items) allEndpoints ports =
     (if map_of (Labels slice) ClusterLabel \<noteq> None
      then collectSlices items allEndpoints ports
      else collectSlices items (allEndpoints @ EndpointSlice.Endpoints slice)
             (if ports = [] \<and> EndpointSlice.Ports slice \<noteq> []
              then EndpointSlice.Ports slice else ports))"

text \<open>The second loop: keep the endpoints whose \<^verbatim>\<open>Conditions.Ready\<close> is set and true.\<close>

fun filterReady :: "Endpoint list \<Rightarrow> Endpoint list \<Rightarrow> Endpoint list" where
  "filterReady [] readyEndpoints = readyEndpoints"
| "filterReady (ep # allEndpoints) readyEndpoints =
     (if Ready (Endpoint.Conditions ep) \<noteq> None \<and> the (Ready (Endpoint.Conditions ep))
      then filterReady allEndpoints (readyEndpoints @ [ep])
      else filterReady allEndpoints readyEndpoints)"

text \<open>\<^verbatim>\<open>fmt.Sprintf("kubernetes.io/service-name=%s", serviceName)\<close>\<close>

definition serviceSelector :: "string \<Rightarrow> string" where
  "serviceSelector serviceName = ''kubernetes.io/service-name='' @ serviceName"

definition getEndpointsFromCluster ::
  "Clientset \<Rightarrow> string \<Rightarrow> string \<Rightarrow> error + (Endpoint list \<times> EndpointPort list)" where
  "getEndpointsFromCluster client namespace serviceName =
     (case ListEndpointSlices client namespace (serviceSelector serviceName) of
        Inl err \<Rightarrow> Inl err
      | Inr items \<Rightarrow>
          (case collectSlices items [] [] of
             (allEndpoints, ports) \<Rightarrow> Inr (filterReady allEndpoints [], ports)))"

text \<open>
  The loop of \<^verbatim>\<open>AggregateEndpoints\<close> over the contributing cluster names. A name that is
  not in the table is skipped, a cluster whose listing fails is skipped (the warning it
  logs is not modelled), and a cluster is appended to the results only when it has at
  least one ready endpoint.
\<close>

fun aggregateLoop ::
  "string \<Rightarrow> string \<Rightarrow> clusterInfos \<Rightarrow> string list \<Rightarrow> ClusterEndpoints list \<Rightarrow> ClusterEndpoints list"
where
  "aggregateLoop namespace serviceName clusterInfos [] results = results"
| "aggregateLoop namespace serviceName clusterInfos (clusterName # clusters) results =
     (case map_of clusterInfos clusterName of
        None \<Rightarrow> aggregateLoop namespace serviceName clusterInfos clusters results
      | Some clusterInfo \<Rightarrow>
          (case getEndpointsFromCluster (Client clusterInfo) namespace serviceName of
             Inl err \<Rightarrow> aggregateLoop namespace serviceName clusterInfos clusters results
           | Inr (endpoints, ports) \<Rightarrow>
               (if length endpoints > 0
                then aggregateLoop namespace serviceName clusterInfos clusters
                       (results @ [\<lparr>ClusterName = ClusterInfo.Name clusterInfo,
                                    Endpoints = endpoints, Ports = ports\<rparr>])
                else aggregateLoop namespace serviceName clusterInfos clusters results)))"

text \<open>\<^verbatim>\<open>AggregateEndpoints\<close> returns the results and an error that is always nil.\<close>

definition AggregateEndpoints ::
  "string \<Rightarrow> string \<Rightarrow> string list \<Rightarrow> clusterInfos \<Rightarrow> ClusterEndpoints list \<times> error option" where
  "AggregateEndpoints namespace serviceName clusters clusterInfos =
     (aggregateLoop namespace serviceName clusterInfos clusters [], None)"

section \<open>The name of a managed EndpointSlice (\<^verbatim>\<open>updateSliceForCluster\<close>)\<close>

text \<open>\<^verbatim>\<open>fmt.Sprintf("%s-svclink-%s", serviceName, ce.ClusterName)\<close>\<close>

definition sliceName :: "string \<Rightarrow> string \<Rightarrow> string" where
  "sliceName serviceName clusterName = serviceName @ ''-svclink-'' @ clusterName"

section \<open>Notions used to state the aggregator's properties\<close>

text \<open>
  The slices of a listing that the first loop does not skip, and the endpoints the second
  loop keeps.
\<close>

definition nativeSlices :: "EndpointSlice list \<Rightarrow> EndpointSlice list" where
  "nativeSlices items = filter (\<lambda>slice. map_of (Labels slice) ClusterLabel = None) items"

definition isReady :: "Endpoint \<Rightarrow> bool" where
  "isReady ep = (Ready (Endpoint.Conditions ep) = Some True)"

text \<open>
  The ready endpoints of a listing, in listing order, and the ports of its first slice
  without the cluster label that has any.
\<close>

definition firstPorts :: "EndpointSlice list \<Rightarrow> EndpointPort list" where
  "firstPorts items =
     (case find (\<lambda>slice. EndpointSlice.Ports slice \<noteq> []) (nativeSlices items) of
        None \<Rightarrow> []
      | Some slice \<Rightarrow> EndpointSlice.Ports slice)"

definition readyEndpointsOf :: "EndpointSlice list \<Rightarrow> Endpoint list" where
  "readyEndpointsOf items = filter isReady (concat (map EndpointSlice.Endpoints (nativeSlices items)))"

text \<open>What one contributing cluster adds to the results of \<^verbatim>\<open>AggregateEndpoints\<close>.\<close>

definition clusterResult :: "string \<Rightarrow> string \<Rightarrow> clusterInfos \<Rightarrow> string \<Rightarrow> ClusterEndpoints list" where
  "clusterResult namespace serviceName clusterInfos clusterName =
     (case map_of clusterInfos clusterName of
        None \<Rightarrow> []
      | Some clusterInfo \<Rightarrow>
          (case getEndpointsFromCluster (Client clusterInfo) namespace serviceName of
             Inl err \<Rightarrow> []
           | Inr (endpoints, ports) \<Rightarrow>
               (if endpoints = [] then []
                else [\<lparr>ClusterName = ClusterInfo.Name clusterInfo,
                       Endpoints = endpoints, Ports = ports\<rparr>])))"

text \<open>
  The same client, answering every EndpointSlice listing without the slices that carry the
  cluster label; and a cluster table with every client replaced so.
\<close>

definition withoutSynced :: "Clientset \<Rightarrow> Clientset" where
  "withoutSynced client =
     client\<lparr>ListEndpointSlices := (\<lambda>namespace selector.
        case ListEndpointSlices client namespace selector of
          Inl err \<Rightarrow> Inl err
        | Inr items \<Rightarrow> Inr (nativeSlices items))\<rparr>"

definition withoutSyncedInfos :: "clusterInfos \<Rightarrow> clusterInfos" where
  "withoutSyncedInfos clusterInfos =
     map (\<lambda>(name, clusterInfo). (name, clusterInfo\<lparr>Client := withoutSynced (Client clusterInfo)\<rparr>))
       clusterInfos"

section \<open>Example objects\<close>

text \<open>
  The slices of the repository's test \<^verbatim>\<open>TestGetEndpointsFromCluster_SkipsSyncedSlices\<close>, and
  further ones: a slice labelled with the managed-by value only, a slice whose endpoints
  are ready, not ready and of unknown readiness, and a slice without a ready endpoint.
\<close>

definition endpointAt :: "string \<Rightarrow> bool option \<Rightarrow> Endpoint" where
  "endpointAt address ready =
     \<lparr>Addresses = [address],
      Conditions = \<lparr>Ready = ready, Serving = None, Terminating = None\<rparr>,
      Hostname = None\<rparr>"

definition httpPort :: EndpointPort where
  "httpPort = \<lparr>EndpointPort.Name = Some ''http'', Port = Some 8080\<rparr>"

definition sliceOf :: "string \<Rightarrow> labels \<Rightarrow> Endpoint list \<Rightarrow> EndpointSlice" where
  "sliceOf name ls endpoints =
     \<lparr>ObjectMeta.Name = name, Namespace = ''default'', UID = '''', Labels = ls,
      OwnerReferences = [], AddressType = ''IPv4'', Endpoints = endpoints, Ports = [httpPort]\<rparr>"

definition nativeSlice :: EndpointSlice where
  "nativeSlice = sliceOf ''test-service-abc123''
     [(''kubernetes.io/service-name'', ''test-service'')]
     [endpointAt ''10.0.1.1'' (Some True), endpointAt ''10.0.1.2'' (Some True)]"

definition syncedSlice :: EndpointSlice where
  "syncedSlice = sliceOf ''test-service-cluster-b''
     [(''kubernetes.io/service-name'', ''test-service''), (ClusterLabel, ''cluster-b'')]
     [endpointAt ''10.0.2.1'' (Some True)]"

definition managedByOnlySlice :: EndpointSlice where
  "managedByOnlySlice = sliceOf ''test-service-cluster-c''
     [(''kubernetes.io/service-name'', ''test-service''), (ManagedByLabel, ManagedByValue)]
     [endpointAt ''10.0.3.1'' (Some True)]"

definition mixedSlice :: EndpointSlice where
  "mixedSlice = sliceOf ''test-service-xyz789''
     [(''kubernetes.io/service-name'', ''test-service'')]
     [endpointAt ''10.0.4.1'' (Some False), endpointAt ''10.0.4.2'' None,
      endpointAt ''10.0.4.3'' (Some True)]"

definition notReadySlice :: EndpointSlice where
  "notReadySlice = sliceOf ''test-service-def456''
     [(''kubernetes.io/service-name'', ''test-service'')]
     [endpointAt ''10.0.5.1'' (Some False), endpointAt ''10.0.5.2'' None]"

text \<open>A client that answers every EndpointSlice listing with the given slices.\<close>

definition fakeClientset :: "EndpointSlice list \<Rightarrow> Clientset" where
  "fakeClientset items =
     \<lparr>ServerVersion = Inr ''v1.28.0'',
      ListNamespaces = Inr [''default''],
      ListServices = (\<lambda>namespace. Inr []),
      ListEndpointSlices = (\<lambda>namespace selector. Inr items)\<rparr>"

definition emptyStatus :: ClusterLinkStatus where
  "emptyStatus = \<lparr>Connected = False, LastConnected = None, Error = '''', Version = '''', Conditions = []\<rparr>"

definition linkNamed :: "string \<Rightarrow> bool \<Rightarrow> string \<Rightarrow> ClusterLink" where
  "linkNamed name enabled kubeconfig =
     \<lparr>ObjectMeta.Name = name, Namespace = '''', UID = '''', Labels = [], OwnerReferences = [],
      Spec = \<lparr>ClusterLinkSpec.Enabled = enabled, Kubeconfig = kubeconfig, ExcludedNamespaces = [],
               IncludedNamespaces = [], ExcludedServices = [], ExcludedServiceNames = []\<rparr>,
      Status = emptyStatus\<rparr>"

definition infoFor :: "string \<Rightarrow> Clientset \<Rightarrow> ClusterInfo" where
  "infoFor name client =
     \<lparr>ClusterInfo.Name = name, Enabled = True, Client = client,
      ClusterLink = linkNamed name True ''a3ViZWNvbmZpZw==''\<rparr>"

text \<open>
  Two contributing clusters: east lists a slice with one ready endpoint among three and a
  slice with the cluster label; west lists a slice without a ready endpoint.
\<close>

definition exampleInfos :: clusterInfos where
  "exampleInfos =
     [(''east'', infoFor ''east'' (fakeClientset [mixedSlice, syncedSlice])),
      (''west'', infoFor ''west'' (fakeClientset [notReadySlice]))]"

definition eastEndpoints :: ClusterEndpoints where
  "eastEndpoints = \<lparr>ClusterName = ''east'',
      Endpoints = [endpointAt ''10.0.4.3'' (Some True)], Ports = [httpPort]\<rparr>"

section \<open>The local cluster, as the program's client sees it (\<^verbatim>\<open>client.Client\<close>)\<close>

text \<open>
  The program reads and writes the local cluster through one client. The model is a store
  of the objects the program touches, together with the trace of the calls made and the
  error-level lines written to the log. \<open>faults\<close> says which calls the API server
  refuses: the call number \<open>n\<close> of the trace (counted from 0) fails with the error
  \<open>faults n\<close> when there is one, so every pattern of failures is a choice of \<open>faults\<close>.
  A call that is not refused acts on the store as the API does: a read sees the writes made
  before it, an object is found by namespace and name, creating an existing object and
  updating or deleting a missing one fail. \<open>now\<close> is the reading of the clock.
\<close>

datatype requirement = Equals string string | Exists string

type_synonym selector = "requirement list"

datatype apiCall =
    ListClusterLinks
  | UpdateStatus string
  | GetService string string
  | GetSlice string string
  | CreateSlice string string
  | UpdateSlice string string
  | DeleteSlice string string
  | ListSlices string selector
  | GetNamespace string
  | CreateNamespace string
  | ListLocalServices "string option"
  | CreateService string string

record kube =
  clusterLinks :: "ClusterLink list"
  localServices :: "Service list"
  localNamespaces :: "string list"
  endpointSlices :: "EndpointSlice list"
  faults :: "nat \<Rightarrow> error option"
  calls :: "apiCall list"
  klog :: "string list"
  now :: nat

definition notFound :: error where
  "notFound = \<lparr>error.Reason = StatusReasonNotFound, Message = ''not found''\<rparr>"

definition alreadyExists :: error where
  "alreadyExists = \<lparr>error.Reason = StatusReasonAlreadyExists, Message = ''already exists''\<rparr>"

definition invoke :: "apiCall \<Rightarrow> kube \<Rightarrow> kube \<times> error option" where
  "invoke call k = (k\<lparr>calls := calls k @ [call]\<rparr>, faults k (length (calls k)))"

definition hasKey :: "'a ObjectMeta_scheme \<Rightarrow> string \<Rightarrow> string \<Rightarrow> bool" where
  "hasKey obj namespace name = (Namespace obj = namespace \<and> ObjectMeta.Name obj = name)"

definition matches :: "selector \<Rightarrow> labels \<Rightarrow> bool" where
  "matches sel ls =
     list_all (\<lambda>r. case r of Equals key v \<Rightarrow> map_of ls key = Some v
                           | Exists key \<Rightarrow> map_of ls key \<noteq> None) sel"

definition klogError :: "string \<Rightarrow> kube \<Rightarrow> kube" where
  "klogError line k = k\<lparr>klog := klog k @ [line]\<rparr>"

definition getService :: "kube \<Rightarrow> string \<Rightarrow> string \<Rightarrow> kube \<times> (error + Service)" where
  "getService k namespace name =
     (case invoke (GetService namespace name) k of
        (k', Some err) \<Rightarrow> (k', Inl err)
      | (k', None) \<Rightarrow>
          (case find (\<lambda>svc. hasKey svc namespace name) (localServices k') of
             None \<Rightarrow> (k', Inl notFound)
           | Some svc \<Rightarrow> (k', Inr svc)))"

definition getSlice :: "kube \<Rightarrow> string \<Rightarrow> string \<Rightarrow> kube \<times> (error + EndpointSlice)" where
  "getSlice k namespace name =
     (case invoke (GetSlice namespace name) k of
        (k', Some err) \<Rightarrow> (k', Inl err)
      | (k', None) \<Rightarrow>
          (case find (\<lambda>s. hasKey s namespace name) (endpointSlices k') of
             None \<Rightarrow> (k', Inl notFound)
           | Some s \<Rightarrow> (k', Inr s)))"

definition createSlice :: "kube \<Rightarrow> EndpointSlice \<Rightarrow> kube \<times> error option" where
  "createSlice k slice =
     (case invoke (CreateSlice (Namespace slice) (ObjectMeta.Name slice)) k of
        (k', Some err) \<Rightarrow> (k', Some err)
      | (k', None) \<Rightarrow>
          (case find (\<lambda>s. hasKey s (Namespace slice) (ObjectMeta.Name slice)) (endpointSlices k') of
             Some s \<Rightarrow> (k', Some alreadyExists)
           | None \<Rightarrow> (k'\<lparr>endpointSlices := endpointSlices k' @ [slice]\<rparr>, None)))"

definition updateSlice :: "kube \<Rightarrow> EndpointSlice \<Rightarrow> kube \<times> error option" where
  "updateSlice k slice =
     (case invoke (UpdateSlice (Namespace slice) (ObjectMeta.Name slice)) k of
        (k', Some err) \<Rightarrow> (k', Some err)
      | (k', None) \<Rightarrow>
          (case find (\<lambda>s. hasKey s (Namespace slice) (ObjectMeta.Name slice)) (endpointSlices k') of
             None \<Rightarrow> (k', Some notFound)
           | Some s \<Rightarrow>
               (k'\<lparr>endpointSlices :=
                     map (\<lambda>s. if hasKey s (Namespace slice) (ObjectMeta.Name slice) then slice else s)
                       (endpointSlices k')\<rparr>, None)))"

definition deleteSlice :: "kube \<Rightarrow> EndpointSlice \<Rightarrow> kube \<times> error option" where
  "deleteSlice k slice =
     (case invoke (DeleteSlice (Namespace slice) (ObjectMeta.Name slice)) k of
        (k', Some err) \<Rightarrow> (k', Some err)
      | (k', None) \<Rightarrow>
          (case find (\<lambda>s. hasKey s (Namespace slice) (ObjectMeta.Name slice)) (endpointSlices k') of
             None \<Rightarrow> (k', Some notFound)
           | Some s \<Rightarrow>
               (k'\<lparr>endpointSlices :=
                     filter (\<lambda>s. \<not> hasKey s (Namespace slice) (ObjectMeta.Name slice))
                       (endpointSlices k')\<rparr>, None)))"

definition listSlices :: "kube \<Rightarrow> string \<Rightarrow> selector \<Rightarrow> kube \<times> (error + EndpointSlice list)" where
  "listSlices k namespace sel =
     (case invoke (ListSlices namespace sel) k of
        (k', Some err) \<Rightarrow> (k', Inl err)
      | (k', None) \<Rightarrow>
          (k', Inr (filter (\<lambda>s. Namespace s = namespace \<and> matches sel (Labels s))
                      (endpointSlices k'))))"

definition listClusterLinks :: "kube \<Rightarrow> kube \<times> (error + ClusterLink list)" where
  "listClusterLinks k =
     (case invoke ListClusterLinks k of
        (k', Some err) \<Rightarrow> (k', Inl err)
      | (k', None) \<Rightarrow> (k', Inr (clusterLinks k')))"

text \<open>
  \<^verbatim>\<open>kubeClient.Status().Update\<close>: only the status of the stored ClusterLink of that name
  changes.
\<close>

definition updateStatus :: "kube \<Rightarrow> ClusterLink \<Rightarrow> kube \<times> error option" where
  "updateStatus k cluster =
     (case invoke (UpdateStatus (ObjectMeta.Name cluster)) k of
        (k', Some err) \<Rightarrow> (k', Some err)
      | (k', None) \<Rightarrow>
          (case find (\<lambda>l. ObjectMeta.Name l = ObjectMeta.Name cluster) (clusterLinks k') of
             None \<Rightarrow> (k', Some notFound)
           | Some l \<Rightarrow>
               (k'\<lparr>clusterLinks :=
                     map (\<lambda>l. if ObjectMeta.Name l = ObjectMeta.Name cluster
                              then l\<lparr>Status := ClusterLink.Status cluster\<rparr> else l)
                       (clusterLinks k')\<rparr>, None)))"

text \<open>
  Namespaces are stored by name. A listing of services is over all namespaces or, with
  \<^verbatim>\<open>client.InNamespace\<close>, over one.
\<close>

definition getNamespace :: "kube \<Rightarrow> string \<Rightarrow> kube \<times> error option" where
  "getNamespace k name =
     (case invoke (GetNamespace name) k of
        (k', Some err) \<Rightarrow> (k', Some err)
      | (k', None) \<Rightarrow>
          (if name \<in> set (localNamespaces k') then (k', None) else (k', Some notFound)))"

definition createNamespace :: "kube \<Rightarrow> string \<Rightarrow> kube \<times> error option" where
  "createNamespace k name =
     (case invoke (CreateNamespace name) k of
        (k', Some err) \<Rightarrow> (k', Some err)
      | (k', None) \<Rightarrow>
          (if name \<in> set (localNamespaces k') then (k', Some alreadyExists)
           else (k'\<lparr>localNamespaces := localNamespaces k' @ [name]\<rparr>, None)))"

definition listLocalServices :: "kube \<Rightarrow> string option \<Rightarrow> kube \<times> (error + Service list)" where
  "listLocalServices k inNamespace =
     (case invoke (ListLocalServices inNamespace) k of
        (k', Some err) \<Rightarrow> (k', Inl err)
      | (k', None) \<Rightarrow>
          (k', Inr (filter (\<lambda>svc. case inNamespace of None \<Rightarrow> True
                                     | Some namespace \<Rightarrow> ObjectMeta.Namespace svc = namespace)
                      (localServices k'))))"

definition createService :: "kube \<Rightarrow> Service \<Rightarrow> kube \<times> error option" where
  "createService k svc =
     (case invoke (CreateService (ObjectMeta.Namespace svc) (ObjectMeta.Name svc)) k of
        (k', Some err) \<Rightarrow> (k', Some err)
      | (k', None) \<Rightarrow>
          (case find (\<lambda>s. hasKey s (ObjectMeta.Namespace svc) (ObjectMeta.Name svc)) (localServices k') of
             Some s \<Rightarrow> (k', Some alreadyExists)
           | None \<Rightarrow> (k'\<lparr>localServices := localServices k' @ [svc]\<rparr>, None)))"

section \<open>The cluster registry (\<^verbatim>\<open>pkg/clusterlink\<close>)\<close>

text \<open>
  What the registry calls outside the program to reach a remote cluster:
  \<^verbatim>\<open>base64.StdEncoding.DecodeString\<close>, \<^verbatim>\<open>clientcmd.RESTConfigFromKubeConfig\<close> and
  \<^verbatim>\<open>kubernetes.NewForConfig\<close>. Nothing is assumed of them.
\<close>

record dialer =
  DecodeString :: "string \<Rightarrow> error + string"
  RESTConfigFromKubeConfig :: "string \<Rightarrow> error + string"
  NewForConfig :: "string \<Rightarrow> error + Clientset"

definition buildClientWithVersion :: "dialer \<Rightarrow> string \<Rightarrow> error + (Clientset \<times> string)" where
  "buildClientWithVersion d kubeconfigData =
     (case RESTConfigFromKubeConfig d kubeconfigData of
        Inl err \<Rightarrow> Inl (Errorf_w ''failed to parse kubeconfig: '' err)
      | Inr restConfig \<Rightarrow>
          (case NewForConfig d restConfig of
             Inl err \<Rightarrow> Inl (Errorf_w ''failed to create client: '' err)
           | Inr client \<Rightarrow>
               (case ServerVersion client of
                  Inl err \<Rightarrow> Inr (client, '''')
                | Inr gitVersion \<Rightarrow> Inr (client, gitVersion))))"

definition buildConditions :: "nat \<Rightarrow> bool \<Rightarrow> string \<Rightarrow> ClusterLinkCondition list" where
  "buildConditions t connected errorMsg =
     (if connected
      then [\<lparr>Type = ClusterLinkReady, Status = ConditionTrue, LastTransitionTime = t,
             Reason = ''Connected'', Message = ''Successfully connected to remote cluster''\<rparr>]
      else [\<lparr>Type = ClusterLinkReady, Status = ConditionFalse, LastTransitionTime = t,
             Reason = ''ConnectionFailed'', Message = ''Failed to connect to remote cluster''\<rparr>]
           @ (if errorMsg \<noteq> ''''
              then [\<lparr>Type = ClusterLinkError, Status = ConditionTrue, LastTransitionTime = t,
                     Reason = ''Error'', Message = errorMsg\<rparr>]
              else []))"

text \<open>
  \<^verbatim>\<open>updateClusterStatus\<close> writes the status into the descriptor it is given and sends it
  to the API server; a failure of that call other than not-found is logged. It returns the
  descriptor as written.
\<close>

definition updateClusterStatus ::
  "kube \<Rightarrow> ClusterLink \<Rightarrow> bool \<Rightarrow> string \<Rightarrow> string \<Rightarrow> kube \<times> ClusterLink" where
  "updateClusterStatus k cluster connected version errorMsg =
     (let status1 = (ClusterLink.Status cluster)
            \<lparr>Connected := connected, Version := version, Error := errorMsg\<rparr>;
          status2 = (if connected then status1\<lparr>LastConnected := Some (now k)\<rparr> else status1);
          status3 = status2\<lparr>ClusterLinkStatus.Conditions := buildConditions (now k) connected errorMsg\<rparr>;
          cluster' = cluster\<lparr>Status := status3\<rparr>
      in case updateStatus k cluster' of
           (k', Some err) \<Rightarrow>
             (if \<not> IsNotFound err
              then (klogError (''Failed to update status for ClusterLink '' @ ObjectMeta.Name cluster
                      @ '': '' @ error.Message err) k', cluster')
              else (k', cluster'))
         | (k', None) \<Rightarrow> (k', cluster'))"

text \<open>
  The body of the loop of \<^verbatim>\<open>ListClusterInfo\<close> for one descriptor. The
  \<^verbatim>\<open>ClusterInfo\<close> is built when its client is known; the table holds it with the
  descriptor as \<^verbatim>\<open>updateClusterStatus\<close> has written it.
\<close>

definition listClusterInfoStep ::
  "dialer \<Rightarrow> ClusterLink \<Rightarrow> kube \<times> clusterInfos \<Rightarrow> kube \<times> clusterInfos" where
  "listClusterInfoStep d clusterLink acc =
     (case acc of (k, clusterInfos) \<Rightarrow>
        (case DecodeString d (Kubeconfig (Spec clusterLink)) of
           Inl err \<Rightarrow>
             (let k1 = klogError (''Failed to decode kubeconfig for cluster ''
                         @ ObjectMeta.Name clusterLink @ '': '' @ error.Message err) k
              in (fst (updateClusterStatus k1 clusterLink False ''''
                         (''Failed to decode kubeconfig: '' @ error.Message err)), clusterInfos))
         | Inr kubeconfigData \<Rightarrow>
             (case buildClientWithVersion d kubeconfigData of
                Inl err \<Rightarrow>
                  (let k1 = klogError (''Failed to build client for cluster ''
                              @ ObjectMeta.Name clusterLink @ '': '' @ error.Message err) k
                   in (fst (updateClusterStatus k1 clusterLink False ''''
                              (''Failed to build client: '' @ error.Message err)), clusterInfos))
              | Inr (client, version) \<Rightarrow>
                  (case updateClusterStatus k clusterLink True version '''' of
                     (k1, clusterLink') \<Rightarrow>
                       (k1, AList.update (ObjectMeta.Name clusterLink)
                              \<lparr>ClusterInfo.Name = ObjectMeta.Name clusterLink,
                               Enabled = ClusterLinkSpec.Enabled (Spec clusterLink),
                               Client = client,
                               ClusterLink = clusterLink'\<rparr> clusterInfos)))))"

fun listClusterInfoLoop ::
  "dialer \<Rightarrow> ClusterLink list \<Rightarrow> kube \<times> clusterInfos \<Rightarrow> kube \<times> clusterInfos" where
  "listClusterInfoLoop d [] acc = acc"
| "listClusterInfoLoop d (clusterLink # items) acc =
     listClusterInfoLoop d items (listClusterInfoStep d clusterLink acc)"

definition ListClusterInfo :: "dialer \<Rightarrow> kube \<Rightarrow> kube \<times> (error + clusterInfos)" where
  "ListClusterInfo d k =
     (case listClusterLinks k of
        (k', Inl err) \<Rightarrow> (k', Inl err)
      | (k', Inr items) \<Rightarrow>
          (case listClusterInfoLoop d items (k', []) of
             (k'', clusterInfos) \<Rightarrow> (k'', Inr clusterInfos)))"

text \<open>
  Example local clusters and remote access: a store without faults, a client whose version
  probe fails, an enabled and a disabled descriptor with the same well-formed credential.
\<close>

definition unreachable :: error where
  "unreachable = \<lparr>error.Reason = StatusReasonUnknown, Message = ''connection refused''\<rparr>"

definition probeFailsClient :: Clientset where
  "probeFailsClient = (fakeClientset [])\<lparr>ServerVersion := Inl unreachable\<rparr>"

text \<open>A dialer that decodes one credential and builds the given client from it.\<close>

definition dialerTo :: "Clientset \<Rightarrow> dialer" where
  "dialerTo client =
     \<lparr>DecodeString = (\<lambda>s. if s = ''a3ViZWNvbmZpZw=='' then Inr ''kubeconfig''
                           else Inl \<lparr>error.Reason = StatusReasonUnknown, Message = ''illegal base64 data''\<rparr>),
      RESTConfigFromKubeConfig = (\<lambda>data. Inr data),
      NewForConfig = (\<lambda>restConfig. Inr client)\<rparr>"

definition kubeWith :: "ClusterLink list \<Rightarrow> Service list \<Rightarrow> EndpointSlice list \<Rightarrow> kube" where
  "kubeWith links svcs slices =
     \<lparr>clusterLinks = links, localServices = svcs, localNamespaces = [''default''],
      endpointSlices = slices,
      faults = (\<lambda>n. None), calls = [], klog = [], now = 1000\<rparr>"

definition connectedStatus :: "nat \<Rightarrow> string \<Rightarrow> ClusterLinkStatus" where
  "connectedStatus t version =
     \<lparr>Connected = True, LastConnected = Some t, Error = '''', Version = version,
      Conditions = buildConditions t True ''''\<rparr>"

definition eastLink :: ClusterLink where
  "eastLink = linkNamed ''east'' True ''a3ViZWNvbmZpZw==''"

definition westDisabled :: ClusterLink where
  "westDisabled = linkNamed ''west'' False ''a3ViZWNvbmZpZw==''"

text \<open>
  A dialer that also decodes a credential whose kubeconfig cannot be parsed and one for
  which no client can be constructed; descriptors with those credentials; and a local
  cluster that stores one descriptor of each kind.
\<close>

definition parseError :: error where
  "parseError = \<lparr>error.Reason = StatusReasonUnknown, Message = ''yaml: did not find expected key''\<rparr>"

definition pickyDialer :: "Clientset \<Rightarrow> dialer" where
  "pickyDialer client =
     \<lparr>DecodeString = (\<lambda>s. if s = ''a3ViZWNvbmZpZw=='' then Inr ''kubeconfig''
                           else if s = ''YnJva2Vu'' then Inr ''broken''
                           else if s = ''bm8tc2VydmVy'' then Inr ''no-server''
                           else Inl \<lparr>error.Reason = StatusReasonUnknown, Message = ''illegal base64 data''\<rparr>),
      RESTConfigFromKubeConfig = (\<lambda>data. if data = ''broken'' then Inl parseError else Inr data),
      NewForConfig = (\<lambda>restConfig. if restConfig = ''no-server'' then Inl unreachable else Inr client)\<rparr>"

definition southBroken :: ClusterLink where
  "southBroken = linkNamed ''south'' True ''YnJva2Vu''"

definition northNoServer :: ClusterLink where
  "northNoServer = linkNamed ''north'' True ''bm8tc2VydmVy''"

definition threeLinks :: kube where
  "threeLinks = kubeWith [eastLink, southBroken, northNoServer] [] []"

section \<open>The service discoverer (\<^verbatim>\<open>pkg/discoverer\<close>)\<close>

text \<open>\<^verbatim>\<open>discoverer.ServiceInfo\<close>; the Go map of them is an association list by key.\<close>

record ServiceInfo =
  Name :: string
  Namespace :: string
  Clusters :: "string list"
  Service :: "Service option"

type_synonym serviceInfos = "(string \<times> ServiceInfo) list"

text \<open>
  The inner loop of \<^verbatim>\<open>discoverInCluster\<close> over the services of one namespace. It writes
  into the shared map as it goes.
\<close>

fun servicesLoop ::
  "ClusterLinkSpec \<Rightarrow> string \<Rightarrow> string \<Rightarrow> string set \<Rightarrow> string set \<Rightarrow> Service list
   \<Rightarrow> serviceInfos \<Rightarrow> serviceInfos"
where
  "servicesLoop spec clusterName namespace excludedSvc excludedSvcName [] services = services"
| "servicesLoop spec clusterName namespace excludedSvc excludedSvcName (svc # items) services =
     (let serviceName = ObjectMeta.Name svc in
      if ShouldExcludeService spec namespace serviceName excludedSvc excludedSvcName
      then servicesLoop spec clusterName namespace excludedSvc excludedSvcName items services
      else
        (let key = namespace @ ''/'' @ serviceName;
             svcInfo = (case map_of services key of
                          None \<Rightarrow> \<lparr>ServiceInfo.Name = serviceName, Namespace = namespace,
                                    Clusters = [], Service = None\<rparr>
                        | Some svcInfo \<Rightarrow> svcInfo)
         in servicesLoop spec clusterName namespace excludedSvc excludedSvcName items
              (AList.update key
                 (svcInfo\<lparr>Clusters := Clusters svcInfo @ [clusterName], Service := Some svc\<rparr>)
                 services)))"

text \<open>
  The outer loop over the namespaces of the cluster. A failing service listing is logged
  and returned at once, with the map as it is then.
\<close>

fun namespacesLoop ::
  "string \<Rightarrow> ClusterInfo \<Rightarrow> string set \<Rightarrow> string list \<Rightarrow> kube \<Rightarrow> serviceInfos
   \<Rightarrow> kube \<times> serviceInfos \<times> error option"
where
  "namespacesLoop clusterName clusterInfo cfgIncludedNamespaces [] k services = (k, services, None)"
| "namespacesLoop clusterName clusterInfo cfgIncludedNamespaces (namespace # items) k services =
     (let spec = Spec (ClusterLink clusterInfo);
          excludedNS = ToExcludedNamespaceSet spec;
          includedNS = ToIncludedNamespaceSet spec;
          excludedSvc = ToExcludedServiceSet spec;
          excludedSvcName = ToExcludedServiceNameSet spec
      in
      if cfgIncludedNamespaces \<noteq> {} \<and> namespace \<notin> cfgIncludedNamespaces
      then namespacesLoop clusterName clusterInfo cfgIncludedNamespaces items k services
      else if ShouldExcludeNamespace spec namespace excludedNS includedNS
      then namespacesLoop clusterName clusterInfo cfgIncludedNamespaces items k services
      else
        (case ListServices (Client clusterInfo) namespace of
           Inl err \<Rightarrow>
             (klogError (''Failed to list services in namespace '' @ namespace @ '' of cluster ''
                @ clusterName @ '': '' @ error.Message err) k, services, Some err)
         | Inr svcItems \<Rightarrow>
             namespacesLoop clusterName clusterInfo cfgIncludedNamespaces items k
               (servicesLoop spec clusterName namespace excludedSvc excludedSvcName svcItems services)))"

definition discoverInCluster ::
  "kube \<Rightarrow> string \<Rightarrow> ClusterInfo \<Rightarrow> serviceInfos \<Rightarrow> string set
   \<Rightarrow> kube \<times> serviceInfos \<times> error option" where
  "discoverInCluster k clusterName clusterInfo services cfgIncludedNamespaces =
     (case ListNamespaces (Client clusterInfo) of
        Inl err \<Rightarrow>
          (klogError (''Failed to list namespaces in cluster '' @ clusterName @ '': ''
             @ error.Message err) k, services, Some err)
      | Inr nsList \<Rightarrow>
          namespacesLoop clusterName clusterInfo cfgIncludedNamespaces nsList k services)"

text \<open>
  \<^verbatim>\<open>clusterlink.UpdateClusterSyncError\<close> writes through the pointer it is given, so it
  returns the \<^verbatim>\<open>ClusterInfo\<close> with the descriptor as written.
\<close>

definition UpdateClusterSyncError ::
  "kube \<Rightarrow> ClusterInfo \<Rightarrow> string \<Rightarrow> error option \<Rightarrow> kube \<times> ClusterInfo" where
  "UpdateClusterSyncError k clusterInfo clusterName syncError =
     (let errorMsg = (case syncError of
                        Some err \<Rightarrow> ''Service sync error: '' @ error.Message err
                      | None \<Rightarrow> '''')
      in case updateClusterStatus k (ClusterLink clusterInfo) True
                (Version (ClusterLink.Status (ClusterLink clusterInfo))) errorMsg of
           (k', cluster') \<Rightarrow> (k', clusterInfo\<lparr>ClusterLink := cluster'\<rparr>))"

text \<open>The body of the loop of \<^verbatim>\<open>DiscoverServices\<close> for one entry of the cluster table.\<close>

definition discoverStep ::
  "string set \<Rightarrow> string \<times> ClusterInfo \<Rightarrow> kube \<times> serviceInfos
   \<Rightarrow> (kube \<times> serviceInfos) \<times> (string \<times> ClusterInfo)" where
  "discoverStep includedNS entry acc =
     (case entry of (clusterName, clusterInfo) \<Rightarrow>
      case acc of (k, services) \<Rightarrow>
      case discoverInCluster k clusterName clusterInfo services includedNS of
        (k1, services1, err) \<Rightarrow>
          (case UpdateClusterSyncError k1 clusterInfo clusterName err of
             (k2, clusterInfo') \<Rightarrow>
               (case err of
                  Some e \<Rightarrow>
                    ((klogError (''Failed to discover services in cluster '' @ clusterName
                        @ '': '' @ error.Message e) k2, services1), (clusterName, clusterInfo'))
                | None \<Rightarrow> ((k2, services1), (clusterName, clusterInfo')))))"

fun discoverLoop ::
  "string set \<Rightarrow> clusterInfos \<Rightarrow> kube \<times> serviceInfos \<Rightarrow> clusterInfos
   \<Rightarrow> (kube \<times> serviceInfos) \<times> clusterInfos"
where
  "discoverLoop includedNS [] acc visited = (acc, visited)"
| "discoverLoop includedNS (entry # clusterInfos) acc visited =
     (case discoverStep includedNS entry acc of
        (acc', entry') \<Rightarrow> discoverLoop includedNS clusterInfos acc' (visited @ [entry']))"

text \<open>
  \<^verbatim>\<open>DiscoverServices\<close> returns the map of services and an error that is always nil; the
  model also returns the cluster table with the descriptors as written.
\<close>

definition DiscoverServices ::
  "kube \<Rightarrow> clusterInfos \<Rightarrow> string list \<Rightarrow> kube \<times> clusterInfos \<times> serviceInfos \<times> error option" where
  "DiscoverServices k clusterInfos includedNamespaces =
     (case discoverLoop (set includedNamespaces) clusterInfos (k, []) [] of
        ((k', services), clusterInfos') \<Rightarrow> (k', clusterInfos', services, None))"


text \<open>
  Example remote clusters: one that lists a namespace with one service, one whose namespace
  listing fails, and one whose second namespace cannot be listed for services.
\<close>

definition webService :: "string \<Rightarrow> Service" where
  "webService namespace =
     \<lparr>ObjectMeta.Name = ''web'', Namespace = namespace, UID = ''uid-web'', Labels = [],
      OwnerReferences = [], Annotations = [], SpecPorts = [(''http'', 80)],
      SpecSelector = [(''app'', ''web'')], ClusterIP = ''10.96.0.10''\<rparr>"







section \<open>The reconciler (\<^verbatim>\<open>pkg/updater\<close>, \<^verbatim>\<open>SliceUpdater\<close>)\<close>

text \<open>
  \<^verbatim>\<open>updateSliceForCluster\<close>: fetch the parent service, build the slice, then create it when
  no slice of that name exists, or overwrite the endpoints, the ports and the three labels
  of the existing one and send it back. The labels of the new slice are the map literal of
  the source, in the order it is written.
\<close>

definition updateSliceForCluster ::
  "kube \<Rightarrow> string \<Rightarrow> string \<Rightarrow> ClusterEndpoints \<Rightarrow> kube \<times> error option" where
  "updateSliceForCluster k namespace serviceName ce =
     (case getService k namespace serviceName of
        (k1, Inl err) \<Rightarrow>
          (k1, Some (Errorf_w (''failed to get service '' @ namespace @ ''/'' @ serviceName @ '': '') err))
      | (k1, Inr service) \<Rightarrow>
          (let ownerRef = \<lparr>APIVersion = ''v1'', Kind = ''Service'',
                          Name = ObjectMeta.Name service, UID = ObjectMeta.UID service\<rparr>;
               slice = \<lparr>ObjectMeta.Name = sliceName serviceName (ClusterName ce),
                        Namespace = namespace, UID = '''',
                        Labels = [(ServiceNameLabel, serviceName),
                                  (ClusterLabel, ClusterName ce),
                                  (ManagedByLabel, ManagedByValue)],
                        OwnerReferences = [ownerRef],
                        AddressType = ''IPv4'',
                        Endpoints = ClusterEndpoints.Endpoints ce,
                        Ports = ClusterEndpoints.Ports ce\<rparr>
           in case getSlice k1 namespace (sliceName serviceName (ClusterName ce)) of
                (k2, Inl err) \<Rightarrow>
                  (if \<not> IsNotFound err
                   then (k2, Some (Errorf_w ''failed to get EndpointSlice: '' err))
                   else (case createSlice k2 slice of
                           (k3, Some err') \<Rightarrow>
                             (k3, Some (Errorf_w ''failed to create EndpointSlice: '' err'))
                         | (k3, None) \<Rightarrow> (k3, None)))
              | (k2, Inr existing) \<Rightarrow>
                  (case updateSlice k2
                          (existing\<lparr>EndpointSlice.Endpoints := ClusterEndpoints.Endpoints ce,
                                    EndpointSlice.Ports := ClusterEndpoints.Ports ce,
                                    Labels :=
                                      AList.update ManagedByLabel ManagedByValue
                                        (AList.update ClusterLabel (ClusterName ce)
                                           (AList.update ServiceNameLabel serviceName
                                              (Labels existing)))\<rparr>) of
                     (k3, Some err) \<Rightarrow>
                       (k3, Some (Errorf_w ''failed to update EndpointSlice: '' err))
                   | (k3, None) \<Rightarrow> (k3, None))))"

text \<open>
  The loop of \<^verbatim>\<open>cleanupOrphanedSlices\<close> over the listed slices: a slice whose cluster
  label is an active cluster is kept, any other is deleted; a failing delete other than
  not-found is returned at once. A missing label reads as the empty string, as in Go.
\<close>

fun deleteLoop :: "string \<Rightarrow> string set \<Rightarrow> EndpointSlice list \<Rightarrow> kube \<Rightarrow> kube \<times> error option" where
  "deleteLoop namespace activeClusters [] k = (k, None)"
| "deleteLoop namespace activeClusters (slice # items) k =
     (if Labels slice = [] then deleteLoop namespace activeClusters items k
      else
        (let clusterName = (case map_of (Labels slice) ClusterLabel of Some v \<Rightarrow> v | None \<Rightarrow> '''')
         in if clusterName \<in> activeClusters then deleteLoop namespace activeClusters items k
            else
              (case deleteSlice k slice of
                 (k', Some err) \<Rightarrow>
                   (if \<not> IsNotFound err
                    then (k', Some (Errorf_w (''failed to delete orphaned EndpointSlice '' @ namespace
                                      @ ''/'' @ ObjectMeta.Name slice @ '': '') err))
                    else deleteLoop namespace activeClusters items k')
               | (k', None) \<Rightarrow> deleteLoop namespace activeClusters items k')))"

text \<open>
  The selector is the service-name label with the service's name and the existence of the
  cluster label; \<^verbatim>\<open>labels.NewRequirement\<close> cannot fail on that constant key.
\<close>

definition cleanupOrphanedSlices ::
  "kube \<Rightarrow> string \<Rightarrow> string \<Rightarrow> ClusterEndpoints list \<Rightarrow> kube \<times> error option" where
  "cleanupOrphanedSlices k namespace serviceName activeClusterEndpoints =
     (let activeClusters = set (map ClusterName activeClusterEndpoints);
          sel = [Equals ServiceNameLabel serviceName, Exists ClusterLabel]
      in case listSlices k namespace sel of
           (k1, Inl err) \<Rightarrow> (k1, Some err)
         | (k1, Inr items) \<Rightarrow> deleteLoop namespace activeClusters items k1)"

text \<open>The first loop of \<^verbatim>\<open>UpdateEndpointSlices\<close>: a failure is logged and the loop goes on.\<close>

fun updateLoop :: "string \<Rightarrow> string \<Rightarrow> ClusterEndpoints list \<Rightarrow> kube \<Rightarrow> kube" where
  "updateLoop namespace serviceName [] k = k"
| "updateLoop namespace serviceName (ce # clusterEndpoints) k =
     (case updateSliceForCluster k namespace serviceName ce of
        (k', Some err) \<Rightarrow>
          updateLoop namespace serviceName clusterEndpoints
            (klogError (''Failed to update EndpointSlice for cluster '' @ ClusterName ce
               @ '', service '' @ namespace @ ''/'' @ serviceName @ '': '' @ error.Message err) k')
      | (k', None) \<Rightarrow> updateLoop namespace serviceName clusterEndpoints k')"

definition UpdateEndpointSlices ::
  "kube \<Rightarrow> string \<Rightarrow> string \<Rightarrow> ClusterEndpoints list \<Rightarrow> kube \<times> error option" where
  "UpdateEndpointSlices k namespace serviceName clusterEndpoints =
     (case cleanupOrphanedSlices (updateLoop namespace serviceName clusterEndpoints k)
             namespace serviceName clusterEndpoints of
        (k', Some err) \<Rightarrow>
          (klogError (''Failed to cleanup orphaned slices for service '' @ namespace @ ''/''
             @ serviceName @ '': '' @ error.Message err) k', None)
      | (k', None) \<Rightarrow> (k', None))"

section \<open>The service updater (\<^verbatim>\<open>pkg/updater\<close>, \<^verbatim>\<open>ServiceUpdater\<close>)\<close>

text \<open>
  \<^verbatim>\<open>groupServicesByNamespace\<close>: the names of the discovered services, by namespace. The
  values of the map of services are records, so the nil entry that the source skips does
  not occur.
\<close>

fun groupLoop ::
  "serviceInfos \<Rightarrow> (string \<times> string list) list \<Rightarrow> (string \<times> string list) list" where
  "groupLoop [] namespaceServiceMap = namespaceServiceMap"
| "groupLoop ((key, serviceInfo) # services) namespaceServiceMap =
     (let ns = ServiceInfo.Namespace serviceInfo;
          m = (if map_of namespaceServiceMap ns = None
               then AList.update ns [] namespaceServiceMap else namespaceServiceMap)
      in groupLoop services
           (AList.update ns
              ((case map_of m ns of Some names \<Rightarrow> names | None \<Rightarrow> [])
                 @ [ServiceInfo.Name serviceInfo]) m))"

definition groupServicesByNamespace :: "serviceInfos \<Rightarrow> (string \<times> string list) list" where
  "groupServicesByNamespace services = groupLoop services []"

definition getExistingServiceNames :: "kube \<Rightarrow> string \<Rightarrow> kube \<times> (error + string set)" where
  "getExistingServiceNames k namespace =
     (case listLocalServices k (Some namespace) of
        (k', Inl err) \<Rightarrow> (k', Inl err)
      | (k', Inr items) \<Rightarrow> (k', Inr (set (map ObjectMeta.Name items))))"

text \<open>
  \<^verbatim>\<open>createMissingService\<close>: nothing to do without the remote service object; otherwise a
  service with the remote labels, the remote annotations and the sync annotation, and the
  remote ports and selector is created. What the API server fills in on creation (the UID,
  the cluster IP) is left empty.
\<close>

definition createMissingService ::
  "kube \<Rightarrow> string \<Rightarrow> string \<Rightarrow> ServiceInfo \<Rightarrow> kube \<times> error option" where
  "createMissingService k namespace name serviceInfo =
     (case Service serviceInfo of
        None \<Rightarrow> (k, None)
      | Some svc \<Rightarrow>
          (let annotations = AList.update SyncAnnotation ''true'' (Annotations svc);
               newSvc = \<lparr>ObjectMeta.Name = name, Namespace = namespace, UID = '''',
                         Labels = Labels svc, OwnerReferences = [],
                         Annotations = annotations, SpecPorts = SpecPorts svc,
                         SpecSelector = SpecSelector svc, ClusterIP = ''''\<rparr>
           in createService k newSvc))"

text \<open>The loop over the service names of one namespace.\<close>

fun createLoop ::
  "serviceInfos \<Rightarrow> string \<Rightarrow> string set \<Rightarrow> string list \<Rightarrow> kube \<Rightarrow> kube \<times> error option" where
  "createLoop services ns existingServices [] k = (k, None)"
| "createLoop services ns existingServices (name # serviceNames) k =
     (if name \<in> existingServices then createLoop services ns existingServices serviceNames k
      else
        (case map_of services (ns @ ''/'' @ name) of
           None \<Rightarrow> createLoop services ns existingServices serviceNames k
         | Some serviceInfo \<Rightarrow>
             (case createMissingService k ns name serviceInfo of
                (k', Some err) \<Rightarrow> (k', Some err)
              | (k', None) \<Rightarrow> createLoop services ns existingServices serviceNames k')))"

text \<open>
  The loop of \<^verbatim>\<open>SyncServicesToLocalCluster\<close> over the namespaces: the namespace is
  fetched, and created when it is not found; then the missing services are created. The
  first error ends the run.
\<close>

fun namespaceLoop ::
  "serviceInfos \<Rightarrow> (string \<times> string list) list \<Rightarrow> kube \<Rightarrow> kube \<times> error option" where
  "namespaceLoop services [] k = (k, None)"
| "namespaceLoop services ((ns, serviceNames) # namespaceServiceMap) k =
     (case (case getNamespace k ns of
              (k1, Some err) \<Rightarrow>
                (if \<not> IsNotFound err then (k1, Some err) else createNamespace k1 ns)
            | (k1, None) \<Rightarrow> (k1, None)) of
        (k2, Some err) \<Rightarrow> (k2, Some err)
      | (k2, None) \<Rightarrow>
          (case getExistingServiceNames k2 ns of
             (k3, Inl err) \<Rightarrow> (k3, Some err)
           | (k3, Inr existingServices) \<Rightarrow>
               (case createLoop services ns existingServices serviceNames k3 of
                  (k4, Some err) \<Rightarrow> (k4, Some err)
                | (k4, None) \<Rightarrow> namespaceLoop services namespaceServiceMap k4)))"

definition SyncServicesToLocalCluster :: "kube \<Rightarrow> serviceInfos \<Rightarrow> kube \<times> error option" where
  "SyncServicesToLocalCluster k services =
     namespaceLoop services (groupServicesByNamespace services) k"

section \<open>The orchestrator (\<^verbatim>\<open>pkg/controller\<close>)\<close>

definition syncService :: "kube \<Rightarrow> ServiceInfo \<Rightarrow> clusterInfos \<Rightarrow> kube \<times> error option" where
  "syncService k svcInfo clusterInfos =
     (case AggregateEndpoints (ServiceInfo.Namespace svcInfo) (ServiceInfo.Name svcInfo)
             (Clusters svcInfo) clusterInfos of
        (clusterEndpoints, Some err) \<Rightarrow> (k, Some err)
      | (clusterEndpoints, None) \<Rightarrow>
          (case UpdateEndpointSlices k (ServiceInfo.Namespace svcInfo) (ServiceInfo.Name svcInfo)
                  clusterEndpoints of
             (k', Some err) \<Rightarrow> (k', Some err)
           | (k', None) \<Rightarrow> (k', None)))"

text \<open>
  The last part of \<^verbatim>\<open>sync\<close>: the loop over the discovered services that collects the
  errors of \<^verbatim>\<open>syncService\<close>, and the line logged when there are any (the message of the
  aggregate is the messages joined).
\<close>

fun syncServicesLoop ::
  "clusterInfos \<Rightarrow> serviceInfos \<Rightarrow> kube \<Rightarrow> error list \<Rightarrow> kube \<times> error list" where
  "syncServicesLoop clusterInfos [] k errs = (k, errs)"
| "syncServicesLoop clusterInfos ((key, svcInfo) # services) k errs =
     (case syncService k svcInfo clusterInfos of
        (k', Some err) \<Rightarrow>
          syncServicesLoop clusterInfos services k'
            (errs @ [\<lparr>error.Reason = StatusReasonUnknown,
                      Message = ''failed to sync service '' @ key @ '': '' @ error.Message err\<rparr>])
      | (k', None) \<Rightarrow> syncServicesLoop clusterInfos services k' errs)"

definition syncServices :: "kube \<Rightarrow> serviceInfos \<Rightarrow> clusterInfos \<Rightarrow> kube \<times> error list" where
  "syncServices k services clusterInfos =
     (case syncServicesLoop clusterInfos services k [] of
        (k', errs) \<Rightarrow>
          (if length errs > 0
           then (klogError (''Sync cycle completed with errors: ''
                   @ concat (map (\<lambda>e. error.Message e @ ''; '') errs)) k', errs)
           else (k', errs)))"

text \<open>
  \<^verbatim>\<open>filterServicesExistingInLocalCluster\<close>: the discovered services whose key is the key
  of a local service of an included namespace.
\<close>

definition filterServicesExistingInLocalCluster ::
  "kube \<Rightarrow> string list \<Rightarrow> serviceInfos \<Rightarrow> kube \<times> (error + serviceInfos)" where
  "filterServicesExistingInLocalCluster k includedNamespaces services =
     (case listLocalServices k None of
        (k', Inl err) \<Rightarrow> (k', Inl err)
      | (k', Inr items) \<Rightarrow>
          (let includedNSSet = set includedNamespaces;
               localSvcs = set (map (\<lambda>svc. ObjectMeta.Namespace svc @ ''/'' @ ObjectMeta.Name svc)
                              (filter (\<lambda>svc. \<not> (includedNSSet \<noteq> {}
                                          \<and> ObjectMeta.Namespace svc \<notin> includedNSSet)) items))
           in (k', Inr (filter (\<lambda>(key, svcInfo). key \<in> localSvcs) services))))"

text \<open>
  \<^verbatim>\<open>sync\<close>, one cycle: the cluster table is built, the services are discovered, the
  services are created locally or filtered to the ones that exist locally, and every
  remaining service is synchronized. It returns nothing; the state of the local cluster
  after it is what the cycle did.
\<close>

definition sync :: "Config \<Rightarrow> dialer \<Rightarrow> kube \<Rightarrow> kube" where
  "sync cfg d k =
     (case ListClusterInfo d k of
        (k1, Inl err) \<Rightarrow> klogError (''Failed to list cluster info: '' @ error.Message err) k1
      | (k1, Inr clusterInfos) \<Rightarrow>
          (case DiscoverServices k1 clusterInfos (Config.IncludedNamespaces cfg) of
             (k2, clusterInfos', services, Some err) \<Rightarrow>
               klogError (''Failed to discover services: '' @ error.Message err) k2
           | (k2, clusterInfos', services, None) \<Rightarrow>
               (if Config.SyncServicesToLocalCluster cfg
                then (case SyncServicesToLocalCluster k2 services of
                        (k3, Some err) \<Rightarrow>
                          klogError (''Failed to update services in local cluster: ''
                            @ error.Message err) k3
                      | (k3, None) \<Rightarrow> fst (syncServices k3 services clusterInfos'))
                else (case filterServicesExistingInLocalCluster k2
                             (Config.IncludedNamespaces cfg) services of
                        (k3, Inl err) \<Rightarrow>
                          klogError (''Failed to filter services: '' @ error.Message err) k3
                      | (k3, Inr filteredServices) \<Rightarrow>
                          fst (syncServices k3 filteredServices clusterInfos')))))"

section \<open>Notions used to state the reconciler's properties\<close>

text \<open>
  A store answers without faults from now on; slices are found by namespace and name, and a
  well-formed store holds at most one slice under each; the slices that the cleanup of a
  service deletes, given the groups just processed; and what the code looks up, builds and
  writes in \<^verbatim>\<open>updateSliceForCluster\<close>.
\<close>

definition noFaults :: "kube \<Rightarrow> bool" where
  "noFaults k = (\<forall>n. length (calls k) \<le> n \<longrightarrow> faults k n = None)"

definition sliceKey :: "EndpointSlice \<Rightarrow> string \<times> string" where
  "sliceKey s = (ObjectMeta.Namespace s, ObjectMeta.Name s)"

definition wellFormed :: "kube \<Rightarrow> bool" where
  "wellFormed k = distinct (map sliceKey (endpointSlices k))"

definition isOrphan :: "string \<Rightarrow> string \<Rightarrow> ClusterEndpoints list \<Rightarrow> EndpointSlice \<Rightarrow> bool" where
  "isOrphan namespace serviceName activeClusterEndpoints s =
     (ObjectMeta.Namespace s = namespace
      \<and> map_of (Labels s) ServiceNameLabel = Some serviceName
      \<and> (case map_of (Labels s) ClusterLabel of
            None \<Rightarrow> False
          | Some c \<Rightarrow> c \<notin> set (map ClusterName activeClusterEndpoints)))"

definition cleanupSelector :: "string \<Rightarrow> selector" where
  "cleanupSelector serviceName = [Equals ServiceNameLabel serviceName, Exists ClusterLabel]"

definition toDelete :: "string set \<Rightarrow> EndpointSlice \<Rightarrow> bool" where
  "toDelete activeClusters slice =
     (Labels slice \<noteq> []
      \<and> (case map_of (Labels slice) ClusterLabel of Some v \<Rightarrow> v | None \<Rightarrow> []) \<notin> activeClusters)"

definition parentOf :: "kube \<Rightarrow> string \<Rightarrow> string \<Rightarrow> Service option" where
  "parentOf k namespace serviceName =
     find (\<lambda>svc. hasKey svc namespace serviceName) (localServices k)"

definition storedSlice :: "kube \<Rightarrow> string \<Rightarrow> string \<Rightarrow> EndpointSlice option" where
  "storedSlice k namespace name = find (\<lambda>s. hasKey s namespace name) (endpointSlices k)"

definition desiredSlice :: "string \<Rightarrow> string \<Rightarrow> Service \<Rightarrow> ClusterEndpoints \<Rightarrow> EndpointSlice" where
  "desiredSlice namespace serviceName service ce =
     \<lparr>ObjectMeta.Name = sliceName serviceName (ClusterName ce),
      Namespace = namespace, UID = [],
      Labels = [(ServiceNameLabel, serviceName), (ClusterLabel, ClusterName ce),
                (ManagedByLabel, ManagedByValue)],
      OwnerReferences = [\<lparr>APIVersion = ''v1'', Kind = ''Service'',
                           Name = ObjectMeta.Name service, UID = ObjectMeta.UID service\<rparr>],
      AddressType = ''IPv4'',
      Endpoints = ClusterEndpoints.Endpoints ce,
      Ports = ClusterEndpoints.Ports ce\<rparr>"

definition overwritten :: "string \<Rightarrow> ClusterEndpoints \<Rightarrow> EndpointSlice \<Rightarrow> EndpointSlice" where
  "overwritten serviceName ce existing =
     existing\<lparr>EndpointSlice.Endpoints := ClusterEndpoints.Endpoints ce,
              EndpointSlice.Ports := ClusterEndpoints.Ports ce,
              Labels := AList.update ManagedByLabel ManagedByValue
                          (AList.update ClusterLabel (ClusterName ce)
                             (AList.update ServiceNameLabel serviceName (Labels existing)))\<rparr>"

text \<open>
  An example store: the local service default/web with a native slice, the managed slices
  of web for the clusters x and y, and a managed slice of another service for y.
\<close>

definition groupOf :: "string \<Rightarrow> string list \<Rightarrow> ClusterEndpoints" where
  "groupOf clusterName addresses =
     \<lparr>ClusterName = clusterName,
      Endpoints = map (\<lambda>a. endpointAt a (Some True)) addresses,
      Ports = [httpPort]\<rparr>"

definition managedSlice :: "string \<Rightarrow> string \<Rightarrow> string list \<Rightarrow> EndpointSlice" where
  "managedSlice serviceName clusterName addresses =
     desiredSlice ''default'' serviceName (webService ''default'') (groupOf clusterName addresses)"

definition localNative :: EndpointSlice where
  "localNative = sliceOf ''web-abc123'' [(''kubernetes.io/service-name'', ''web'')]
     [endpointAt ''10.0.0.1'' (Some True)]"

definition syncedStore :: kube where
  "syncedStore = kubeWith [] [webService ''default'']
     [localNative, managedSlice ''web'' ''x'' [''10.1.0.1''], managedSlice ''web'' ''y'' [''10.2.0.1''],
      managedSlice ''api'' ''y'' [''10.2.0.9'']]"

text \<open>
  The calls that fetch the parent service, one per attempted cluster, and the line that
  \<^verbatim>\<open>UpdateEndpointSlices\<close> logs for a cluster whose update failed.
\<close>

definition isGetService :: "apiCall \<Rightarrow> bool" where
  "isGetService c = (case c of GetService namespace name \<Rightarrow> True | _ \<Rightarrow> False)"


text \<open>
  The calls that start a step of the reconciler: the fetch of the parent service starts the
  update of one group, and the listing starts the cleanup of one service. The steps that
  \<^verbatim>\<open>syncService\<close> makes for one discovered service are a fetch for every group that
  \<^verbatim>\<open>AggregateEndpoints\<close> returns for it and then the listing.
\<close>

definition isStepCall :: "apiCall \<Rightarrow> bool" where
  "isStepCall c =
     (case c of GetService namespace name \<Rightarrow> True
              | ListSlices namespace sel \<Rightarrow> True
              | _ \<Rightarrow> False)"






text \<open>
  The managed slice of a group is stored with the group's endpoints and ports and the three
  labels; and the calls of an update that finds its slice.
\<close>

definition settled :: "string \<Rightarrow> string \<Rightarrow> ClusterEndpoints \<Rightarrow> kube \<Rightarrow> bool" where
  "settled namespace serviceName ce k =
     (case storedSlice k namespace (sliceName serviceName (ClusterName ce)) of
        None \<Rightarrow> False
      | Some s \<Rightarrow>
          EndpointSlice.Endpoints s = ClusterEndpoints.Endpoints ce
          \<and> EndpointSlice.Ports s = ClusterEndpoints.Ports ce
          \<and> map_of (Labels s) ServiceNameLabel = Some serviceName
          \<and> map_of (Labels s) ClusterLabel = Some (ClusterName ce)
          \<and> map_of (Labels s) ManagedByLabel = Some ManagedByValue)"

definition updateCalls :: "string \<Rightarrow> string \<Rightarrow> ClusterEndpoints \<Rightarrow> apiCall list" where
  "updateCalls namespace serviceName ce =
     [GetService namespace serviceName,
      GetSlice namespace (sliceName serviceName (ClusterName ce)),
      UpdateSlice namespace (sliceName serviceName (ClusterName ce))]"

text \<open>A store on which a reconcile of the service with these groups has nothing left to change.\<close>

definition converged :: "string \<Rightarrow> string \<Rightarrow> ClusterEndpoints list \<Rightarrow> kube \<Rightarrow> bool" where
  "converged namespace serviceName clusterEndpoints k =
     (noFaults k \<and> wellFormed k
      \<and> (parentOf k namespace serviceName = None
           \<or> list_all (\<lambda>ce. settled namespace serviceName ce k) clusterEndpoints)
      \<and> filter (isOrphan namespace serviceName clusterEndpoints) (endpointSlices k) = [])"

text \<open>
  The calls of a reconcile on a converged store: per group, the parent is fetched and,
  when it exists, the slice is fetched and updated; then the cleanup lists.
\<close>

definition secondRunCalls :: "kube \<Rightarrow> string \<Rightarrow> string \<Rightarrow> ClusterEndpoints list \<Rightarrow> apiCall list" where
  "secondRunCalls k namespace serviceName clusterEndpoints =
     (case parentOf k namespace serviceName of
        None \<Rightarrow> map (\<lambda>ce. GetService namespace serviceName) clusterEndpoints
      | Some service \<Rightarrow> concat (map (updateCalls namespace serviceName) clusterEndpoints))
     @ [ListSlices namespace (cleanupSelector serviceName)]"

text \<open>The calls that create, update or delete a slice.\<close>

definition isWriteCall :: "apiCall \<Rightarrow> bool" where
  "isWriteCall c =
     (case c of CreateSlice namespace name \<Rightarrow> True
              | UpdateSlice namespace name \<Rightarrow> True
              | DeleteSlice namespace name \<Rightarrow> True
              | _ \<Rightarrow> False)"

text \<open>
  The calls that delete a slice; and the keys of the slices that a reconcile of the service
  writes for the groups it is given.
\<close>

definition isDeleteCall :: "apiCall \<Rightarrow> bool" where
  "isDeleteCall c = (case c of DeleteSlice namespace name \<Rightarrow> True | _ \<Rightarrow> False)"


text \<open>A store with the local service default/web and no slice.\<close>

definition freshStore :: kube where
  "freshStore = kubeWith [] [webService ''default''] []"






section \<open>Properties of the filter policy\<close>

text \<open>
  C4. Default exclusion: whatever the ClusterLinkSpec holds, with the sets that
  \<^verbatim>\<open>discoverInCluster\<close> computes from it, the namespace kube-system is excluded by
  \<^verbatim>\<open>ShouldExcludeNamespace\<close> and the service name kubernetes is excluded by
  \<^verbatim>\<open>ShouldExcludeService\<close> in every namespace. Nothing is assumed of the lists, so the
  namespace may be absent from \<^verbatim>\<open>excludedNamespaces\<close> and present in
  \<^verbatim>\<open>includedNamespaces\<close>.
\<close>

theorem default_exclusion:
  "ShouldExcludeNamespace cls ''kube-system''
      (ToExcludedNamespaceSet cls) (ToIncludedNamespaceSet cls)
   \<and> ShouldExcludeService cls namespace ''kubernetes''
      (ToExcludedServiceSet cls) (ToExcludedServiceNameSet cls)"
  by (simp add: ShouldExcludeNamespace_def ShouldExcludeService_def
      ToExcludedNamespaceSet_def ToExcludedServiceNameSet_def NamespaceSystem_def)

section \<open>Properties of the naming scheme\<close>

text \<open>
  C10. The name of a managed resource does not determine the (service, cluster) pair:
  service a-svclink-b with cluster c and service a with cluster b-svclink-c are two
  different pairs with the same resource name.
\<close>

theorem sliceName_not_injective:
  "sliceName ''a-svclink-b'' ''c'' = sliceName ''a'' ''b-svclink-c''
   \<and> (''a-svclink-b'', ''c'') \<noteq> (''a'', ''b-svclink-c'')
   \<and> (\<exists>s c s' c'. (s, c) \<noteq> (s', c') \<and> sliceName s c = sliceName s' c')"
proof -
  have eq: "sliceName ''a-svclink-b'' ''c'' = sliceName ''a'' ''b-svclink-c''"
    by (simp add: sliceName_def)
  have ne: "(''a-svclink-b'', ''c'') \<noteq> (''a'', ''b-svclink-c'')"
    by simp
  from eq ne show ?thesis by blast
qed

section \<open>Properties of the endpoint aggregator\<close>

lemma collectSlices_fst:
  "fst (collectSlices items allEndpoints ports) =
     allEndpoints @ concat (map EndpointSlice.Endpoints (nativeSlices items))"
  by (induction items arbitrary: allEndpoints ports) (simp_all add: nativeSlices_def)

lemma collectSlices_native:
  "collectSlices (nativeSlices items) allEndpoints ports = collectSlices items allEndpoints ports"
  by (induction items arbitrary: allEndpoints ports) (simp_all add: nativeSlices_def)

lemma filterReady_eq:
  "filterReady allEndpoints readyEndpoints = readyEndpoints @ filter isReady allEndpoints"
  by (induction allEndpoints arbitrary: readyEndpoints) (auto simp: isReady_def)

lemma aggregateLoop_eq:
  "aggregateLoop namespace serviceName clusterInfos clusters results =
     results @ concat (map (clusterResult namespace serviceName clusterInfos) clusters)"
  by (induction clusters arbitrary: results)
     (auto simp: clusterResult_def split: option.splits sum.splits prod.splits)

lemma getEndpointsFromCluster_eq:
  "ListEndpointSlices client namespace (serviceSelector serviceName) = Inr items \<Longrightarrow>
   \<exists>ports. getEndpointsFromCluster client namespace serviceName =
     Inr (filter isReady (concat (map EndpointSlice.Endpoints (nativeSlices items))), ports)"
  using collectSlices_fst[of items "[]" "[]"]
  by (auto simp: getEndpointsFromCluster_def filterReady_eq split: prod.splits)

lemma getEndpointsFromCluster_withoutSynced:
  "getEndpointsFromCluster (withoutSynced client) namespace serviceName =
   getEndpointsFromCluster client namespace serviceName"
  by (simp add: getEndpointsFromCluster_def withoutSynced_def collectSlices_native
      split: sum.splits)

lemma map_of_withoutSyncedInfos:
  "map_of (withoutSyncedInfos clusterInfos) name =
   map_option (\<lambda>clusterInfo. clusterInfo\<lparr>Client := withoutSynced (Client clusterInfo)\<rparr>)
     (map_of clusterInfos name)"
  by (induction clusterInfos) (auto simp: withoutSyncedInfos_def)

lemma clusterResult_withoutSynced:
  "clusterResult namespace serviceName (withoutSyncedInfos clusterInfos) clusterName =
   clusterResult namespace serviceName clusterInfos clusterName"
  by (simp add: clusterResult_def map_of_withoutSyncedInfos
      getEndpointsFromCluster_withoutSynced split: option.splits sum.splits prod.splits)

lemma clusterResult_withoutSynced_fun:
  "clusterResult namespace serviceName (withoutSyncedInfos clusterInfos) =
   clusterResult namespace serviceName clusterInfos"
  by (rule ext) (rule clusterResult_withoutSynced)

lemma getEndpointsFromCluster_ready:
  "getEndpointsFromCluster client namespace serviceName = Inr (endpoints, ports) \<Longrightarrow>
   ep \<in> set endpoints \<Longrightarrow> Ready (Endpoint.Conditions ep) = Some True"
  by (auto simp: getEndpointsFromCluster_def filterReady_eq isReady_def
      split: sum.splits prod.splits)

lemma clusterResult_mem:
  assumes "ce \<in> set (clusterResult namespace serviceName clusterInfos clusterName)"
  shows "\<exists>clusterInfo endpoints ports.
    map_of clusterInfos clusterName = Some clusterInfo
    \<and> getEndpointsFromCluster (Client clusterInfo) namespace serviceName = Inr (endpoints, ports)
    \<and> endpoints \<noteq> []
    \<and> ce = \<lparr>ClusterName = ClusterInfo.Name clusterInfo, Endpoints = endpoints, Ports = ports\<rparr>"
proof (cases "map_of clusterInfos clusterName")
  case None
  with assms show ?thesis by (simp add: clusterResult_def)
next
  case (Some clusterInfo)
  show ?thesis
  proof (cases "getEndpointsFromCluster (Client clusterInfo) namespace serviceName")
    case (Inl err)
    with Some assms show ?thesis by (simp add: clusterResult_def)
  next
    case (Inr r)
    obtain endpoints ports where r: "r = (endpoints, ports)" by (cases r)
    from assms Some Inr r show ?thesis
      by (simp add: clusterResult_def split: if_splits)
  qed
qed

lemma clusterResult_sound:
  assumes "ce \<in> set (clusterResult namespace serviceName clusterInfos clusterName)"
  shows "ClusterEndpoints.Endpoints ce \<noteq> []
       \<and> (\<forall>ep \<in> set (ClusterEndpoints.Endpoints ce). Ready (Endpoint.Conditions ep) = Some True)"
proof -
  from clusterResult_mem[OF assms] obtain clusterInfo :: ClusterInfo and endpoints ports where
    g: "getEndpointsFromCluster (Client clusterInfo) namespace serviceName = Inr (endpoints, ports)"
    and ne: "endpoints \<noteq> []"
    and ce: "ce = \<lparr>ClusterName = ClusterInfo.Name clusterInfo, Endpoints = endpoints, Ports = ports\<rparr>"
    by blast
  show ?thesis
    using getEndpointsFromCluster_ready[OF g] ne ce by simp
qed

lemma clusterResult_complete:
  assumes "map_of clusterInfos clusterName = Some clusterInfo"
    and "ListEndpointSlices (Client clusterInfo) namespace (serviceSelector serviceName) = Inr items"
    and "slice \<in> set items" and "map_of (Labels slice) ClusterLabel = None"
    and "ep \<in> set (EndpointSlice.Endpoints slice)"
    and "Ready (Endpoint.Conditions ep) = Some True"
  shows "\<exists>ce \<in> set (clusterResult namespace serviceName clusterInfos clusterName).
           ClusterName ce = ClusterInfo.Name clusterInfo \<and> ep \<in> set (ClusterEndpoints.Endpoints ce)"
proof -
  obtain ports where g: "getEndpointsFromCluster (Client clusterInfo) namespace serviceName =
      Inr (filter isReady (concat (map EndpointSlice.Endpoints (nativeSlices items))), ports)"
    using getEndpointsFromCluster_eq[OF assms(2)] by blast
  have "slice \<in> set (nativeSlices items)"
    using assms(3,4) by (simp add: nativeSlices_def)
  then have m: "ep \<in> set (filter isReady (concat (map EndpointSlice.Endpoints (nativeSlices items))))"
    using assms(5,6) by (auto simp: isReady_def)
  then have "filter isReady (concat (map EndpointSlice.Endpoints (nativeSlices items))) \<noteq> []"
    by (metis empty_iff list.set(1))
  then show ?thesis
    using assms(1) g m by (simp add: clusterResult_def)
qed

text \<open>
  C1 (as amended). Loop avoidance rests on the cluster label: the slices of a remote
  listing that carry the label key cloudpilot.ai/svclink-cluster, with any value, add
  nothing to the aggregator's output. The output for every cluster is the same as if
  those slices had not been in the listing, and the endpoints returned for a cluster are
  exactly the ready endpoints of the slices without that label, in listing order, whether
  or not the labelled slices' endpoints are ready.
\<close>

theorem loop_avoidance:
  "AggregateEndpoints namespace serviceName clusters (withoutSyncedInfos clusterInfos) =
     AggregateEndpoints namespace serviceName clusters clusterInfos
   \<and> (ListEndpointSlices client namespace (serviceSelector serviceName) = Inr items
        \<longrightarrow> (\<exists>ports. getEndpointsFromCluster client namespace serviceName =
               Inr (filter isReady (concat (map EndpointSlice.Endpoints (nativeSlices items))), ports)))"
  using getEndpointsFromCluster_eq[of client namespace serviceName items]
  by (simp add: AggregateEndpoints_def aggregateLoop_eq clusterResult_withoutSynced_fun)

theorem loop_avoidance_witness:
  "ListEndpointSlices (fakeClientset [nativeSlice, syncedSlice]) ''default'' (serviceSelector ''test-service'')
      = Inr [nativeSlice, syncedSlice]
   \<and> (\<exists>ports. getEndpointsFromCluster (fakeClientset [nativeSlice, syncedSlice]) ''default'' ''test-service''
         = Inr ([endpointAt ''10.0.1.1'' (Some True), endpointAt ''10.0.1.2'' (Some True)], ports))"
  using loop_avoidance[of "''default''" "''test-service''" "[]" "[]"
      "fakeClientset [nativeSlice, syncedSlice]" "[nativeSlice, syncedSlice]"]
  by (simp add: fakeClientset_def nativeSlices_def nativeSlice_def syncedSlice_def sliceOf_def
      isReady_def endpointAt_def ClusterLabel_def)

text \<open>
  The managed-by label does not take part in the check: a slice that carries
  endpointslice.kubernetes.io/managed-by = svclink.cloudpilot.ai and no cluster label is
  aggregated like a native one.
\<close>

theorem managed_by_marker_counterexample:
  "map_of (Labels managedByOnlySlice) ManagedByLabel = Some ManagedByValue
   \<and> ListEndpointSlices (fakeClientset [managedByOnlySlice]) ''default'' (serviceSelector ''test-service'')
       = Inr [managedByOnlySlice]
   \<and> fst (AggregateEndpoints ''default'' ''test-service'' [''cluster-c'']
        [(''cluster-c'', infoFor ''cluster-c'' (fakeClientset [managedByOnlySlice]))])
      = [\<lparr>ClusterName = ''cluster-c'',
          Endpoints = EndpointSlice.Endpoints managedByOnlySlice,
          Ports = [httpPort]\<rparr>]
   \<and> EndpointSlice.Endpoints managedByOnlySlice = [endpointAt ''10.0.3.1'' (Some True)]"
  by (simp add: AggregateEndpoints_def getEndpointsFromCluster_def fakeClientset_def infoFor_def
      managedByOnlySlice_def sliceOf_def endpointAt_def ClusterLabel_def ManagedByLabel_def)

lemma collectSlices_snd:
  "snd (collectSlices items allEndpoints ports) = (if ports \<noteq> [] then ports else firstPorts items)"
  by (induction items arbitrary: allEndpoints ports) (simp_all add: firstPorts_def nativeSlices_def)

lemma getEndpointsFromCluster_listing:
  "ListEndpointSlices client namespace (serviceSelector serviceName) = Inr items \<Longrightarrow>
   getEndpointsFromCluster client namespace serviceName = Inr (readyEndpointsOf items, firstPorts items)"
  using collectSlices_fst[of items "[]" "[]"] collectSlices_snd[of items "[]" "[]"]
  by (simp add: getEndpointsFromCluster_def filterReady_eq readyEndpointsOf_def case_prod_beta)

lemma AggregateEndpoints_append:
  "fst (AggregateEndpoints namespace serviceName (clusters @ clusters') clusterInfos) =
   fst (AggregateEndpoints namespace serviceName clusters clusterInfos)
   @ fst (AggregateEndpoints namespace serviceName clusters' clusterInfos)"
  by (simp add: AggregateEndpoints_def aggregateLoop_eq)

lemma AggregateEndpoints_single:
  "fst (AggregateEndpoints namespace serviceName [clusterName] clusterInfos) =
     (case map_of clusterInfos clusterName of
        None \<Rightarrow> []
      | Some clusterInfo \<Rightarrow>
          (case ListEndpointSlices (Client clusterInfo) namespace (serviceSelector serviceName) of
             Inl err \<Rightarrow> []
           | Inr items \<Rightarrow>
               if readyEndpointsOf items = [] then []
               else [\<lparr>ClusterName = ClusterInfo.Name clusterInfo,
                      Endpoints = readyEndpointsOf items, Ports = firstPorts items\<rparr>]))"
proof (cases "map_of clusterInfos clusterName")
  case None
  then show ?thesis by (simp add: AggregateEndpoints_def)
next
  case (Some clusterInfo)
  show ?thesis
  proof (cases "ListEndpointSlices (Client clusterInfo) namespace (serviceSelector serviceName)")
    case (Inl err)
    then show ?thesis using Some by (simp add: AggregateEndpoints_def getEndpointsFromCluster_def)
  next
    case (Inr items)
    show ?thesis
      using Some Inr getEndpointsFromCluster_listing[OF Inr]
      by (simp add: AggregateEndpoints_def)
  qed
qed

text \<open>
  C7. Readiness filtering and absence. The output of \<^verbatim>\<open>AggregateEndpoints\<close> is made of
  what each contributing cluster adds, in the order of the names, and the error is nil. A
  name that is not in the table and a cluster whose listing fails add nothing; a cluster
  whose listing has no ready endpoint in a slice without the cluster label adds no entry at
  all; any other cluster adds exactly one entry, under its own name, with exactly the ready
  endpoints of those slices of its own listing. Hence every entry of the output has at
  least one endpoint and all its endpoints have the readiness flag set and true, so an
  endpoint whose flag is false or unset is in no entry; and a ready endpoint of a slice
  without the cluster label, listed by a contributing cluster of the table, is in the
  output entry of that cluster.
\<close>

theorem readiness_filtering:
  "(ce \<in> set (fst (AggregateEndpoints namespace serviceName clusters clusterInfos)) \<longrightarrow>
      ClusterEndpoints.Endpoints ce \<noteq> []
      \<and> (\<forall>ep \<in> set (ClusterEndpoints.Endpoints ce). Ready (Endpoint.Conditions ep) = Some True))
   \<and> (clusterName \<in> set clusters \<and> map_of clusterInfos clusterName = Some clusterInfo
      \<and> ListEndpointSlices (Client clusterInfo) namespace (serviceSelector serviceName) = Inr items
      \<and> slice \<in> set items \<and> map_of (Labels slice) ClusterLabel = None
      \<and> ep' \<in> set (EndpointSlice.Endpoints slice) \<and> Ready (Endpoint.Conditions ep') = Some True \<longrightarrow>
      (\<exists>ce' \<in> set (fst (AggregateEndpoints namespace serviceName clusters clusterInfos)).
          ClusterName ce' = ClusterInfo.Name clusterInfo \<and> ep' \<in> set (ClusterEndpoints.Endpoints ce')))
   \<and> fst (AggregateEndpoints namespace serviceName (pre @ c # post) clusterInfos) =
       fst (AggregateEndpoints namespace serviceName pre clusterInfos)
       @ fst (AggregateEndpoints namespace serviceName [c] clusterInfos)
       @ fst (AggregateEndpoints namespace serviceName post clusterInfos)
   \<and> fst (AggregateEndpoints namespace serviceName [c] clusterInfos) =
       (case map_of clusterInfos c of
          None \<Rightarrow> []
        | Some info \<Rightarrow>
            (case ListEndpointSlices (Client info) namespace (serviceSelector serviceName) of
               Inl err \<Rightarrow> []
             | Inr listed \<Rightarrow>
                 if readyEndpointsOf listed = [] then []
                 else [\<lparr>ClusterName = ClusterInfo.Name info,
                        Endpoints = readyEndpointsOf listed, Ports = firstPorts listed\<rparr>]))
   \<and> snd (AggregateEndpoints namespace serviceName clusters clusterInfos) = None"
proof -
  have 1: "ce \<in> set (fst (AggregateEndpoints namespace serviceName clusters clusterInfos)) \<longrightarrow>
      ClusterEndpoints.Endpoints ce \<noteq> []
      \<and> (\<forall>ep \<in> set (ClusterEndpoints.Endpoints ce). Ready (Endpoint.Conditions ep) = Some True)"
  proof (intro impI)
    assume "ce \<in> set (fst (AggregateEndpoints namespace serviceName clusters clusterInfos))"
    then obtain c where "ce \<in> set (clusterResult namespace serviceName clusterInfos c)"
      by (auto simp: AggregateEndpoints_def aggregateLoop_eq)
    then show "ClusterEndpoints.Endpoints ce \<noteq> []
      \<and> (\<forall>ep \<in> set (ClusterEndpoints.Endpoints ce). Ready (Endpoint.Conditions ep) = Some True)"
      using clusterResult_sound by blast
  qed
  have 2: "clusterName \<in> set clusters \<and> map_of clusterInfos clusterName = Some clusterInfo
      \<and> ListEndpointSlices (Client clusterInfo) namespace (serviceSelector serviceName) = Inr items
      \<and> slice \<in> set items \<and> map_of (Labels slice) ClusterLabel = None
      \<and> ep' \<in> set (EndpointSlice.Endpoints slice) \<and> Ready (Endpoint.Conditions ep') = Some True \<longrightarrow>
      (\<exists>ce' \<in> set (fst (AggregateEndpoints namespace serviceName clusters clusterInfos)).
          ClusterName ce' = ClusterInfo.Name clusterInfo \<and> ep' \<in> set (ClusterEndpoints.Endpoints ce'))"
  proof (intro impI)
    assume a: "clusterName \<in> set clusters \<and> map_of clusterInfos clusterName = Some clusterInfo
      \<and> ListEndpointSlices (Client clusterInfo) namespace (serviceSelector serviceName) = Inr items
      \<and> slice \<in> set items \<and> map_of (Labels slice) ClusterLabel = None
      \<and> ep' \<in> set (EndpointSlice.Endpoints slice) \<and> Ready (Endpoint.Conditions ep') = Some True"
    then obtain ce' where "ce' \<in> set (clusterResult namespace serviceName clusterInfos clusterName)"
      "ClusterName ce' = ClusterInfo.Name clusterInfo" "ep' \<in> set (ClusterEndpoints.Endpoints ce')"
      using clusterResult_complete[of clusterInfos clusterName clusterInfo namespace serviceName items slice ep']
      by blast
    with a show "\<exists>ce' \<in> set (fst (AggregateEndpoints namespace serviceName clusters clusterInfos)).
          ClusterName ce' = ClusterInfo.Name clusterInfo \<and> ep' \<in> set (ClusterEndpoints.Endpoints ce')"
      by (auto simp: AggregateEndpoints_def aggregateLoop_eq)
  qed
  have 3: "fst (AggregateEndpoints namespace serviceName (pre @ c # post) clusterInfos) =
       fst (AggregateEndpoints namespace serviceName pre clusterInfos)
       @ fst (AggregateEndpoints namespace serviceName [c] clusterInfos)
       @ fst (AggregateEndpoints namespace serviceName post clusterInfos)"
    using AggregateEndpoints_append[of namespace serviceName pre "[c] @ post" clusterInfos]
      AggregateEndpoints_append[of namespace serviceName "[c]" post clusterInfos]
    by simp
  have 5: "snd (AggregateEndpoints namespace serviceName clusters clusterInfos) = None"
    by (simp add: AggregateEndpoints_def)
  from 1 2 3 5 AggregateEndpoints_single[of namespace serviceName c clusterInfos]
  show ?thesis by blast
qed

lemma example_aggregate:
  "fst (AggregateEndpoints ''default'' ''test-service'' [''east'', ''west''] exampleInfos) = [eastEndpoints]"
  by (simp add: AggregateEndpoints_def getEndpointsFromCluster_def fakeClientset_def infoFor_def
      exampleInfos_def eastEndpoints_def mixedSlice_def syncedSlice_def notReadySlice_def
      sliceOf_def endpointAt_def ClusterLabel_def)

lemma example_west:
  "map_of exampleInfos ''west'' = Some (infoFor ''west'' (fakeClientset [notReadySlice]))
   \<and> ListEndpointSlices (Client (infoFor ''west'' (fakeClientset [notReadySlice])))
        ''default'' (serviceSelector ''test-service'') = Inr [notReadySlice]
   \<and> readyEndpointsOf [notReadySlice] = []"
  by (simp add: exampleInfos_def infoFor_def fakeClientset_def readyEndpointsOf_def nativeSlices_def
      notReadySlice_def sliceOf_def endpointAt_def isReady_def ClusterLabel_def)

lemma example_aggregate_each:
  "fst (AggregateEndpoints ''default'' ''test-service'' [''east''] exampleInfos) = [eastEndpoints]
   \<and> fst (AggregateEndpoints ''default'' ''test-service'' [''west''] exampleInfos) = []
   \<and> fst (AggregateEndpoints ''default'' ''test-service'' [] exampleInfos) = []"
  by (simp add: AggregateEndpoints_def getEndpointsFromCluster_def fakeClientset_def infoFor_def
      exampleInfos_def eastEndpoints_def mixedSlice_def syncedSlice_def notReadySlice_def
      sliceOf_def endpointAt_def ClusterLabel_def)

theorem readiness_filtering_witness:
  "fst (AggregateEndpoints ''default'' ''test-service'' [''east'', ''west''] exampleInfos) = [eastEndpoints]
   \<and> ClusterEndpoints.Endpoints eastEndpoints \<noteq> []
   \<and> list_all (\<lambda>ep. Ready (Endpoint.Conditions ep) = Some True) (ClusterEndpoints.Endpoints eastEndpoints)
   \<and> ''east'' \<in> set [''east'', ''west'']
   \<and> map_of exampleInfos ''east'' = Some (infoFor ''east'' (fakeClientset [mixedSlice, syncedSlice]))
   \<and> ListEndpointSlices (Client (infoFor ''east'' (fakeClientset [mixedSlice, syncedSlice])))
        ''default'' (serviceSelector ''test-service'') = Inr [mixedSlice, syncedSlice]
   \<and> mixedSlice \<in> set [mixedSlice, syncedSlice]
   \<and> map_of (Labels mixedSlice) ClusterLabel = None
   \<and> endpointAt ''10.0.4.3'' (Some True) \<in> set (EndpointSlice.Endpoints mixedSlice)
   \<and> endpointAt ''10.0.4.1'' (Some False) \<in> set (EndpointSlice.Endpoints mixedSlice)
   \<and> endpointAt ''10.0.4.2'' None \<in> set (EndpointSlice.Endpoints mixedSlice)
   \<and> (\<exists>ce \<in> set (fst (AggregateEndpoints ''default'' ''test-service'' [''east'', ''west''] exampleInfos)).
         ClusterName ce = ''east'' \<and> endpointAt ''10.0.4.3'' (Some True) \<in> set (ClusterEndpoints.Endpoints ce))
   \<and> map_of exampleInfos ''west'' = Some (infoFor ''west'' (fakeClientset [notReadySlice]))
   \<and> ListEndpointSlices (Client (infoFor ''west'' (fakeClientset [notReadySlice])))
        ''default'' (serviceSelector ''test-service'') = Inr [notReadySlice]
   \<and> readyEndpointsOf [notReadySlice] = []
   \<and> fst (AggregateEndpoints ''default'' ''test-service'' [''west''] exampleInfos) = []
   \<and> fst (AggregateEndpoints ''default'' ''test-service'' ([''east''] @ ''west'' # []) exampleInfos) =
       fst (AggregateEndpoints ''default'' ''test-service'' [''east''] exampleInfos)"
proof -
  have e: "map_of exampleInfos ''east'' = Some (infoFor ''east'' (fakeClientset [mixedSlice, syncedSlice]))
     \<and> ListEndpointSlices (Client (infoFor ''east'' (fakeClientset [mixedSlice, syncedSlice])))
        ''default'' (serviceSelector ''test-service'') = Inr [mixedSlice, syncedSlice]
     \<and> map_of (Labels mixedSlice) ClusterLabel = None
     \<and> endpointAt ''10.0.4.3'' (Some True) \<in> set (EndpointSlice.Endpoints mixedSlice)
     \<and> endpointAt ''10.0.4.1'' (Some False) \<in> set (EndpointSlice.Endpoints mixedSlice)
     \<and> endpointAt ''10.0.4.2'' None \<in> set (EndpointSlice.Endpoints mixedSlice)
     \<and> Ready (Endpoint.Conditions (endpointAt ''10.0.4.3'' (Some True))) = Some True
     \<and> ClusterInfo.Name (infoFor ''east'' (fakeClientset [mixedSlice, syncedSlice])) = ''east''"
    by (simp add: exampleInfos_def mixedSlice_def sliceOf_def endpointAt_def
       ClusterLabel_def fakeClientset_def infoFor_def)
  have r: "ClusterEndpoints.Endpoints eastEndpoints \<noteq> []
     \<and> list_all (\<lambda>ep. Ready (Endpoint.Conditions ep) = Some True) (ClusterEndpoints.Endpoints eastEndpoints)"
    by (simp add: eastEndpoints_def endpointAt_def)
  show ?thesis
    using readiness_filtering[where ce = eastEndpoints and namespace = "''default''"
      and serviceName = "''test-service''" and clusters = "[''east'', ''west'']"
      and clusterInfos = exampleInfos and clusterName = "''east''"
      and clusterInfo = "infoFor ''east'' (fakeClientset [mixedSlice, syncedSlice])"
      and items = "[mixedSlice, syncedSlice]" and slice = mixedSlice
      and ep' = "endpointAt ''10.0.4.3'' (Some True)"
      and pre = "[''east'']" and c = "''west''" and post = "[]"] e r example_west
    by (simp add: example_aggregate example_aggregate_each)
qed

section \<open>Properties of the cluster registry\<close>

lemma updateClusterStatus_snd:
  "snd (updateClusterStatus k cluster connected version errorMsg) =
     cluster\<lparr>Status := (ClusterLink.Status cluster)
        \<lparr>Connected := connected, Version := version, Error := errorMsg,
         LastConnected := (if connected then Some (now k) else LastConnected (ClusterLink.Status cluster)),
         ClusterLinkStatus.Conditions := buildConditions (now k) connected errorMsg\<rparr>\<rparr>"
  by (simp add: updateClusterStatus_def Let_def split: prod.splits option.splits)

lemma step_keys_mono:
  "map_of (snd acc) name \<noteq> None \<Longrightarrow> map_of (snd (listClusterInfoStep d clusterLink acc)) name \<noteq> None"
  by (cases acc)
     (simp add: listClusterInfoStep_def Let_def update_conv' split: sum.splits prod.splits)

lemma loop_keys_mono:
  "map_of (snd acc) name \<noteq> None \<Longrightarrow> map_of (snd (listClusterInfoLoop d items acc)) name \<noteq> None"
proof (induction items arbitrary: acc)
  case Nil
  then show ?case by simp
next
  case (Cons l items)
  from Cons.prems have "map_of (snd (listClusterInfoStep d l acc)) name \<noteq> None"
    by (rule step_keys_mono)
  then show ?case using Cons.IH by simp
qed

lemma step_adds:
  assumes "DecodeString d (Kubeconfig (Spec clusterLink)) = Inr kubeconfigData"
    and "buildClientWithVersion d kubeconfigData = Inr (client, version)"
  shows "map_of (snd (listClusterInfoStep d clusterLink acc)) (ObjectMeta.Name clusterLink) =
     Some \<lparr>ClusterInfo.Name = ObjectMeta.Name clusterLink,
           Enabled = ClusterLinkSpec.Enabled (Spec clusterLink),
           Client = client,
           ClusterLink = snd (updateClusterStatus (fst acc) clusterLink True version [])\<rparr>"
  using assms
  by (cases acc) (simp add: listClusterInfoStep_def update_conv' split: prod.splits)

lemma loop_adds:
  assumes "clusterLink \<in> set items"
    and "DecodeString d (Kubeconfig (Spec clusterLink)) = Inr kubeconfigData"
    and "buildClientWithVersion d kubeconfigData = Inr (client, version)"
  shows "map_of (snd (listClusterInfoLoop d items acc)) (ObjectMeta.Name clusterLink) \<noteq> None"
  using assms(1)
proof (induction items arbitrary: acc)
  case Nil
  then show ?case by simp
next
  case (Cons l items)
  show ?case
  proof (cases "clusterLink = l")
    case True
    have "map_of (snd (listClusterInfoStep d l acc)) (ObjectMeta.Name clusterLink) \<noteq> None"
      using step_adds[OF assms(2,3), of acc] True by simp
    then show ?thesis
      using loop_keys_mono by simp
  next
    case False
    with Cons show ?thesis by simp
  qed
qed

lemma invoke_no_fault:
  "faults k (length (calls k)) = None \<Longrightarrow> invoke call k = (k\<lparr>calls := calls k @ [call]\<rparr>, None)"
  by (simp add: invoke_def)

lemma updateStatus_stored:
  assumes "faults k (length (calls k)) = None"
    and "l \<in> set (clusterLinks (fst (updateStatus k cluster)))"
    and "ObjectMeta.Name l = ObjectMeta.Name cluster"
  shows "ClusterLink.Status l = ClusterLink.Status cluster"
proof (cases "find (\<lambda>l. ObjectMeta.Name l = ObjectMeta.Name cluster) (clusterLinks k)")
  case None
  then have "\<not> (\<exists>x \<in> set (clusterLinks k). ObjectMeta.Name x = ObjectMeta.Name cluster)"
    by (simp add: find_None_iff)
  moreover have "l \<in> set (clusterLinks k)"
    using assms(1,2) None by (simp add: updateStatus_def invoke_no_fault)
  ultimately show ?thesis using assms(3) by blast
next
  case (Some x)
  then show ?thesis
    using assms by (auto simp: updateStatus_def invoke_no_fault)
qed

lemma updateClusterStatus_stored:
  assumes "faults k (length (calls k)) = None"
    and "l \<in> set (clusterLinks (fst (updateClusterStatus k cluster connected version errorMsg)))"
    and "ObjectMeta.Name l = ObjectMeta.Name cluster"
  shows "ClusterLink.Status l =
     ClusterLink.Status (snd (updateClusterStatus k cluster connected version errorMsg))"
proof -
  let ?c = "snd (updateClusterStatus k cluster connected version errorMsg)"
  have c: "ObjectMeta.Name ?c = ObjectMeta.Name cluster"
    by (simp add: updateClusterStatus_snd)
  have k: "clusterLinks (fst (updateClusterStatus k cluster connected version errorMsg)) =
      clusterLinks (fst (updateStatus k ?c))"
    by (simp add: updateClusterStatus_def Let_def klogError_def split: prod.splits option.splits)
  show ?thesis
    using updateStatus_stored[OF assms(1), of l ?c] assms(2,3) c k by simp
qed

lemma ListClusterInfo_listed:
  "faults k (length (calls k)) = None \<Longrightarrow>
   snd (ListClusterInfo d k) =
     Inr (snd (listClusterInfoLoop d (clusterLinks k) (k\<lparr>calls := calls k @ [ListClusterLinks]\<rparr>, [])))"
  by (simp add: ListClusterInfo_def listClusterLinks_def invoke_no_fault case_prod_beta)

lemma example_probe_failure:
  "ListClusterInfo (dialerTo probeFailsClient) (kubeWith [eastLink] [] []) =
     ((kubeWith [eastLink\<lparr>Status := connectedStatus 1000 []\<rparr>] [] [])
        \<lparr>calls := [ListClusterLinks, UpdateStatus ''east'']\<rparr>,
      Inr [(''east'', \<lparr>ClusterInfo.Name = ''east'', Enabled = True, Client = probeFailsClient,
                       ClusterLink = eastLink\<lparr>Status := connectedStatus 1000 []\<rparr>\<rparr>)])"
  by (simp add: ListClusterInfo_def listClusterLinks_def invoke_def kubeWith_def
      listClusterInfoStep_def dialerTo_def eastLink_def linkNamed_def buildClientWithVersion_def
      probeFailsClient_def updateClusterStatus_def updateStatus_def Let_def connectedStatus_def
      emptyStatus_def)

lemma example_disabled:
  "ListClusterInfo (dialerTo (fakeClientset [])) (kubeWith [westDisabled] [] []) =
     ((kubeWith [westDisabled\<lparr>Status := connectedStatus 1000 ''v1.28.0''\<rparr>] [] [])
        \<lparr>calls := [ListClusterLinks, UpdateStatus ''west'']\<rparr>,
      Inr [(''west'', \<lparr>ClusterInfo.Name = ''west'', Enabled = False, Client = fakeClientset [],
                       ClusterLink = westDisabled\<lparr>Status := connectedStatus 1000 ''v1.28.0''\<rparr>\<rparr>)])"
  by (simp add: ListClusterInfo_def listClusterLinks_def invoke_def kubeWith_def
      listClusterInfoStep_def dialerTo_def westDisabled_def linkNamed_def buildClientWithVersion_def
      fakeClientset_def updateClusterStatus_def updateStatus_def Let_def connectedStatus_def
      emptyStatus_def)

lemma buildClientWithVersion_Inl:
  "buildClientWithVersion d kubeconfigData = Inl buildErr \<longleftrightarrow>
     (\<exists>e. RESTConfigFromKubeConfig d kubeconfigData = Inl e
          \<and> buildErr = Errorf_w ''failed to parse kubeconfig: '' e)
     \<or> (\<exists>restConfig e. RESTConfigFromKubeConfig d kubeconfigData = Inr restConfig
          \<and> NewForConfig d restConfig = Inl e
          \<and> buildErr = Errorf_w ''failed to create client: '' e)"
  by (auto simp: buildClientWithVersion_def split: sum.splits)

lemma step_build_failure:
  assumes "DecodeString d (Kubeconfig (Spec clusterLink)) = Inr kubeconfigData"
    and "buildClientWithVersion d kubeconfigData = Inl buildErr"
  shows "listClusterInfoStep d clusterLink (k, clusterInfos) =
     (fst (updateClusterStatus
        (klogError (''Failed to build client for cluster '' @ ObjectMeta.Name clusterLink
           @ '': '' @ error.Message buildErr) k)
        clusterLink False [] (''Failed to build client: '' @ error.Message buildErr)), clusterInfos)"
  using assms by (simp add: listClusterInfoStep_def Let_def)

lemma step_other_name:
  "ObjectMeta.Name clusterLink \<noteq> name \<Longrightarrow>
   map_of (snd (listClusterInfoStep d clusterLink acc)) name = map_of (snd acc) name"
  by (cases acc)
     (simp add: listClusterInfoStep_def Let_def update_conv' split: sum.splits prod.splits)

lemma loop_build_failure:
  assumes "DecodeString d (Kubeconfig (Spec failing)) = Inr kubeconfigData"
    and "buildClientWithVersion d kubeconfigData = Inl buildErr"
    and "\<forall>l \<in> set items. ObjectMeta.Name l = ObjectMeta.Name failing \<longrightarrow> l = failing"
  shows "map_of (snd (listClusterInfoLoop d items acc)) (ObjectMeta.Name failing) =
         map_of (snd acc) (ObjectMeta.Name failing)"
  using assms(3)
proof (induction items arbitrary: acc)
  case Nil
  then show ?case by simp
next
  case (Cons l items)
  have "map_of (snd (listClusterInfoStep d l acc)) (ObjectMeta.Name failing) =
        map_of (snd acc) (ObjectMeta.Name failing)"
  proof (cases "l = failing")
    case True
    then show ?thesis
      using step_build_failure[OF assms(1,2), of "fst acc" "snd acc"] by simp
  next
    case False
    with Cons.prems have "ObjectMeta.Name l \<noteq> ObjectMeta.Name failing" by auto
    then show ?thesis by (rule step_other_name)
  qed
  with Cons show ?case by simp
qed

lemma distinct_names_unique:
  assumes "distinct (map (ObjectMeta.Name :: ClusterLink \<Rightarrow> string) items)" and "failing \<in> set items"
  shows "\<forall>l \<in> set items. ObjectMeta.Name l = ObjectMeta.Name failing \<longrightarrow> l = failing"
  using assms by (meson distinct_map inj_on_def)

lemma ListClusterInfo_build_failure:
  assumes "faults k (length (calls k)) = None"
    and "failing \<in> set (clusterLinks k)"
    and "distinct (map ObjectMeta.Name (clusterLinks k))"
    and "DecodeString d (Kubeconfig (Spec failing)) = Inr kubeconfigData"
    and "buildClientWithVersion d kubeconfigData = Inl buildErr"
  shows "\<exists>clusterInfos. snd (ListClusterInfo d k) = Inr clusterInfos
          \<and> map_of clusterInfos (ObjectMeta.Name failing) = None"
  using loop_build_failure[OF assms(4,5) distinct_names_unique[OF assms(3,2)],
      of "(k\<lparr>calls := calls k @ [ListClusterLinks]\<rparr>, [])"] assms(1)
  by (simp add: ListClusterInfo_listed)

lemma step_build_failure_stored:
  assumes "DecodeString d (Kubeconfig (Spec failing)) = Inr kubeconfigData"
    and "buildClientWithVersion d kubeconfigData = Inl buildErr"
    and "faults k (length (calls k)) = None"
    and "l \<in> set (clusterLinks (fst (listClusterInfoStep d failing (k, clusterInfos))))"
    and "ObjectMeta.Name l = ObjectMeta.Name failing"
  shows "\<not> Connected (ClusterLink.Status l) \<and> Version (ClusterLink.Status l) = []
       \<and> Error (ClusterLink.Status l) = ''Failed to build client: '' @ error.Message buildErr"
proof -
  let ?k1 = "klogError (''Failed to build client for cluster '' @ ObjectMeta.Name failing
           @ '': '' @ error.Message buildErr) k"
  have f: "faults ?k1 (length (calls ?k1)) = None"
    using assms(3) by (simp add: klogError_def)
  have m: "l \<in> set (clusterLinks (fst (updateClusterStatus ?k1 failing False []
              (''Failed to build client: '' @ error.Message buildErr))))"
    using assms(4) step_build_failure[OF assms(1,2), of k clusterInfos] by simp
  have "ClusterLink.Status l = ClusterLink.Status (snd (updateClusterStatus ?k1 failing False []
              (''Failed to build client: '' @ error.Message buildErr)))"
    using updateClusterStatus_stored[OF f m assms(5)] .
  then show ?thesis
    by (simp add: updateClusterStatus_snd)
qed


lemma probe_failure_handling:
  assumes "faults k (length (calls k)) = None"
    and "clusterLink \<in> set (clusterLinks k)"
    and "DecodeString d (Kubeconfig (Spec clusterLink)) = Inr kubeconfigData"
    and "RESTConfigFromKubeConfig d kubeconfigData = Inr restConfig"
    and "NewForConfig d restConfig = Inr client"
    and "ServerVersion client = Inl err"
  shows "buildClientWithVersion d kubeconfigData = Inr (client, [])
    \<and> (\<exists>clusterInfos. snd (ListClusterInfo d k) = Inr clusterInfos
          \<and> map_of clusterInfos (ObjectMeta.Name clusterLink) \<noteq> None)
    \<and> (\<exists>clusterInfo.
          map_of (snd (listClusterInfoStep d clusterLink (k', clusterInfos')))
            (ObjectMeta.Name clusterLink) = Some clusterInfo
          \<and> Client clusterInfo = client
          \<and> Connected (ClusterLink.Status (ClusterLink clusterInfo))
          \<and> Version (ClusterLink.Status (ClusterLink clusterInfo)) = []
          \<and> Error (ClusterLink.Status (ClusterLink clusterInfo)) = [])
    \<and> (faults k' (length (calls k')) = None \<longrightarrow>
         (\<forall>l \<in> set (clusterLinks (fst (listClusterInfoStep d clusterLink (k', clusterInfos')))).
            ObjectMeta.Name l = ObjectMeta.Name clusterLink \<longrightarrow>
              Connected (ClusterLink.Status l) \<and> Version (ClusterLink.Status l) = []
              \<and> Error (ClusterLink.Status l) = []))"
proof -
  have b: "buildClientWithVersion d kubeconfigData = Inr (client, [])"
    using assms(4-6) by (simp add: buildClientWithVersion_def)
  have l: "\<exists>clusterInfos. snd (ListClusterInfo d k) = Inr clusterInfos
          \<and> map_of clusterInfos (ObjectMeta.Name clusterLink) \<noteq> None"
    using loop_adds[OF assms(2,3) b, of "(k\<lparr>calls := calls k @ [ListClusterLinks]\<rparr>, [])"] assms(1)
    by (simp add: ListClusterInfo_listed)
  have s: "\<exists>clusterInfo.
          map_of (snd (listClusterInfoStep d clusterLink (k', clusterInfos')))
            (ObjectMeta.Name clusterLink) = Some clusterInfo
          \<and> Client clusterInfo = client
          \<and> Connected (ClusterLink.Status (ClusterLink clusterInfo))
          \<and> Version (ClusterLink.Status (ClusterLink clusterInfo)) = []
          \<and> Error (ClusterLink.Status (ClusterLink clusterInfo)) = []"
    using step_adds[OF assms(3) b, of "(k', clusterInfos')"]
    by (simp add: updateClusterStatus_snd)
  have st: "fst (listClusterInfoStep d clusterLink (k', clusterInfos')) =
      fst (updateClusterStatus k' clusterLink True [] [])"
    using assms(3) b by (simp add: listClusterInfoStep_def split: prod.splits)
  have p: "faults k' (length (calls k')) = None \<longrightarrow>
         (\<forall>l \<in> set (clusterLinks (fst (listClusterInfoStep d clusterLink (k', clusterInfos')))).
            ObjectMeta.Name l = ObjectMeta.Name clusterLink \<longrightarrow>
              Connected (ClusterLink.Status l) \<and> Version (ClusterLink.Status l) = []
              \<and> Error (ClusterLink.Status l) = [])"
  proof (intro impI ballI)
    fix l
    assume f: "faults k' (length (calls k')) = None"
      and m: "l \<in> set (clusterLinks (fst (listClusterInfoStep d clusterLink (k', clusterInfos'))))"
      and n: "ObjectMeta.Name l = ObjectMeta.Name clusterLink"
    have "ClusterLink.Status l = ClusterLink.Status (snd (updateClusterStatus k' clusterLink True [] []))"
      using updateClusterStatus_stored[OF f _ n, of True "[]" "[]"] m st by simp
    then show "Connected (ClusterLink.Status l) \<and> Version (ClusterLink.Status l) = []
              \<and> Error (ClusterLink.Status l) = []"
      by (simp add: updateClusterStatus_snd)
  qed
  from b l s p show ?thesis by blast
qed

text \<open>
  C9 (as amended). A failing version probe does not degrade a descriptor; a client that
  cannot be built does. When the credential decodes and the client is built,
  \<^verbatim>\<open>buildClientWithVersion\<close> returns the client with an empty version and no error
  although the probe fails; the descriptor is in the output map of \<^verbatim>\<open>ListClusterInfo\<close>
  (when the listing of descriptors succeeds); the loop body puts it in the table with
  status connected, empty version and empty error, for any state and table it starts from;
  and when the status call is not refused, every stored descriptor of that name has that
  status. \<^verbatim>\<open>buildClientWithVersion\<close> returns an error exactly when the kubeconfig cannot
  be parsed or the client cannot be constructed, with the message prefixed accordingly.
  For a descriptor whose credential decodes and whose client cannot be built, the loop
  body leaves the table as it was; when the status call is not refused, every stored
  descriptor of that name is disconnected, with an empty version and the message
  "Failed to build client: " followed by the error; and when the stored descriptors have
  distinct names and their listing succeeds, the descriptor is not in the output map.
\<close>

theorem version_probe_failure_tolerated:
  "(faults k (length (calls k)) = None
      \<and> clusterLink \<in> set (clusterLinks k)
      \<and> DecodeString d (Kubeconfig (Spec clusterLink)) = Inr kubeconfigData
      \<and> RESTConfigFromKubeConfig d kubeconfigData = Inr restConfig
      \<and> NewForConfig d restConfig = Inr client
      \<and> ServerVersion client = Inl err \<longrightarrow>
    buildClientWithVersion d kubeconfigData = Inr (client, [])
    \<and> (\<exists>clusterInfos. snd (ListClusterInfo d k) = Inr clusterInfos
          \<and> map_of clusterInfos (ObjectMeta.Name clusterLink) \<noteq> None)
    \<and> (\<exists>clusterInfo.
          map_of (snd (listClusterInfoStep d clusterLink (k', clusterInfos')))
            (ObjectMeta.Name clusterLink) = Some clusterInfo
          \<and> Client clusterInfo = client
          \<and> Connected (ClusterLink.Status (ClusterLink clusterInfo))
          \<and> Version (ClusterLink.Status (ClusterLink clusterInfo)) = []
          \<and> Error (ClusterLink.Status (ClusterLink clusterInfo)) = [])
    \<and> (faults k' (length (calls k')) = None \<longrightarrow>
         (\<forall>l \<in> set (clusterLinks (fst (listClusterInfoStep d clusterLink (k', clusterInfos')))).
            ObjectMeta.Name l = ObjectMeta.Name clusterLink \<longrightarrow>
              Connected (ClusterLink.Status l) \<and> Version (ClusterLink.Status l) = []
              \<and> Error (ClusterLink.Status l) = [])))
   \<and> (buildClientWithVersion d failingData = Inl buildErr \<longleftrightarrow>
        (\<exists>e. RESTConfigFromKubeConfig d failingData = Inl e
             \<and> buildErr = Errorf_w ''failed to parse kubeconfig: '' e)
        \<or> (\<exists>cfg e. RESTConfigFromKubeConfig d failingData = Inr cfg
             \<and> NewForConfig d cfg = Inl e
             \<and> buildErr = Errorf_w ''failed to create client: '' e))
   \<and> (DecodeString d (Kubeconfig (Spec failing)) = Inr failingData
      \<and> buildClientWithVersion d failingData = Inl buildErr \<longrightarrow>
        snd (listClusterInfoStep d failing (k', clusterInfos')) = clusterInfos'
        \<and> (faults k' (length (calls k')) = None \<longrightarrow>
             (\<forall>l \<in> set (clusterLinks (fst (listClusterInfoStep d failing (k', clusterInfos')))).
                ObjectMeta.Name l = ObjectMeta.Name failing \<longrightarrow>
                  \<not> Connected (ClusterLink.Status l) \<and> Version (ClusterLink.Status l) = []
                  \<and> Error (ClusterLink.Status l) =
                      ''Failed to build client: '' @ error.Message buildErr))
        \<and> (faults k (length (calls k)) = None \<and> failing \<in> set (clusterLinks k)
             \<and> distinct (map ObjectMeta.Name (clusterLinks k)) \<longrightarrow>
             (\<exists>clusterInfos. snd (ListClusterInfo d k) = Inr clusterInfos
                \<and> map_of clusterInfos (ObjectMeta.Name failing) = None)))"
proof -
  have a: "faults k (length (calls k)) = None
      \<and> clusterLink \<in> set (clusterLinks k)
      \<and> DecodeString d (Kubeconfig (Spec clusterLink)) = Inr kubeconfigData
      \<and> RESTConfigFromKubeConfig d kubeconfigData = Inr restConfig
      \<and> NewForConfig d restConfig = Inr client
      \<and> ServerVersion client = Inl err \<longrightarrow>
    buildClientWithVersion d kubeconfigData = Inr (client, [])
    \<and> (\<exists>clusterInfos. snd (ListClusterInfo d k) = Inr clusterInfos
          \<and> map_of clusterInfos (ObjectMeta.Name clusterLink) \<noteq> None)
    \<and> (\<exists>clusterInfo.
          map_of (snd (listClusterInfoStep d clusterLink (k', clusterInfos')))
            (ObjectMeta.Name clusterLink) = Some clusterInfo
          \<and> Client clusterInfo = client
          \<and> Connected (ClusterLink.Status (ClusterLink clusterInfo))
          \<and> Version (ClusterLink.Status (ClusterLink clusterInfo)) = []
          \<and> Error (ClusterLink.Status (ClusterLink clusterInfo)) = [])
    \<and> (faults k' (length (calls k')) = None \<longrightarrow>
         (\<forall>l \<in> set (clusterLinks (fst (listClusterInfoStep d clusterLink (k', clusterInfos')))).
            ObjectMeta.Name l = ObjectMeta.Name clusterLink \<longrightarrow>
              Connected (ClusterLink.Status l) \<and> Version (ClusterLink.Status l) = []
              \<and> Error (ClusterLink.Status l) = []))"
    using probe_failure_handling[of k clusterLink d kubeconfigData restConfig client err k' clusterInfos']
    by blast
  have c: "DecodeString d (Kubeconfig (Spec failing)) = Inr failingData
      \<and> buildClientWithVersion d failingData = Inl buildErr \<longrightarrow>
        snd (listClusterInfoStep d failing (k', clusterInfos')) = clusterInfos'
        \<and> (faults k' (length (calls k')) = None \<longrightarrow>
             (\<forall>l \<in> set (clusterLinks (fst (listClusterInfoStep d failing (k', clusterInfos')))).
                ObjectMeta.Name l = ObjectMeta.Name failing \<longrightarrow>
                  \<not> Connected (ClusterLink.Status l) \<and> Version (ClusterLink.Status l) = []
                  \<and> Error (ClusterLink.Status l) =
                      ''Failed to build client: '' @ error.Message buildErr))
        \<and> (faults k (length (calls k)) = None \<and> failing \<in> set (clusterLinks k)
             \<and> distinct (map ObjectMeta.Name (clusterLinks k)) \<longrightarrow>
             (\<exists>clusterInfos. snd (ListClusterInfo d k) = Inr clusterInfos
                \<and> map_of clusterInfos (ObjectMeta.Name failing) = None))"
  proof (intro impI conjI ballI)
    assume h: "DecodeString d (Kubeconfig (Spec failing)) = Inr failingData
      \<and> buildClientWithVersion d failingData = Inl buildErr"
    then have h1: "DecodeString d (Kubeconfig (Spec failing)) = Inr failingData"
      and h2: "buildClientWithVersion d failingData = Inl buildErr" by simp_all
    show "snd (listClusterInfoStep d failing (k', clusterInfos')) = clusterInfos'"
      using step_build_failure[OF h1 h2, of k' clusterInfos'] by simp
    {
      fix l
      assume "faults k' (length (calls k')) = None"
        and "l \<in> set (clusterLinks (fst (listClusterInfoStep d failing (k', clusterInfos'))))"
        and "ObjectMeta.Name l = ObjectMeta.Name failing"
      then show "\<not> Connected (ClusterLink.Status l)" and "Version (ClusterLink.Status l) = []"
        and "Error (ClusterLink.Status l) = ''Failed to build client: '' @ error.Message buildErr"
        using step_build_failure_stored[OF h1 h2] by blast+
    }
    assume "faults k (length (calls k)) = None \<and> failing \<in> set (clusterLinks k)
             \<and> distinct (map ObjectMeta.Name (clusterLinks k))"
    then show "\<exists>clusterInfos. snd (ListClusterInfo d k) = Inr clusterInfos
                \<and> map_of clusterInfos (ObjectMeta.Name failing) = None"
      using ListClusterInfo_build_failure[OF _ _ _ h1 h2] by blast
  qed
  from a c buildClientWithVersion_Inl[of d failingData buildErr] show ?thesis by blast
qed

theorem version_probe_failure_tolerated_witness:
  "faults threeLinks (length (calls threeLinks)) = None
   \<and> eastLink \<in> set (clusterLinks threeLinks)
   \<and> DecodeString (pickyDialer probeFailsClient) (Kubeconfig (Spec eastLink)) = Inr ''kubeconfig''
   \<and> RESTConfigFromKubeConfig (pickyDialer probeFailsClient) ''kubeconfig'' = Inr ''kubeconfig''
   \<and> NewForConfig (pickyDialer probeFailsClient) ''kubeconfig'' = Inr probeFailsClient
   \<and> ServerVersion probeFailsClient = Inl unreachable
   \<and> buildClientWithVersion (pickyDialer probeFailsClient) ''kubeconfig'' = Inr (probeFailsClient, [])
   \<and> (\<exists>clusterInfos. snd (ListClusterInfo (pickyDialer probeFailsClient) threeLinks) = Inr clusterInfos
          \<and> map_of clusterInfos ''east'' \<noteq> None \<and> map_of clusterInfos ''south'' = None
          \<and> map_of clusterInfos ''north'' = None)
   \<and> map (\<lambda>l. (ObjectMeta.Name l, Connected (ClusterLink.Status l), Version (ClusterLink.Status l)))
        (clusterLinks (fst (listClusterInfoStep (pickyDialer probeFailsClient) eastLink
           (threeLinks, [])))) = [(''east'', True, []), (''south'', False, []), (''north'', False, [])]
   \<and> distinct (map ObjectMeta.Name (clusterLinks threeLinks))
   \<and> southBroken \<in> set (clusterLinks threeLinks)
   \<and> DecodeString (pickyDialer probeFailsClient) (Kubeconfig (Spec southBroken)) = Inr ''broken''
   \<and> RESTConfigFromKubeConfig (pickyDialer probeFailsClient) ''broken'' = Inl parseError
   \<and> buildClientWithVersion (pickyDialer probeFailsClient) ''broken''
        = Inl (Errorf_w ''failed to parse kubeconfig: '' parseError)
   \<and> snd (listClusterInfoStep (pickyDialer probeFailsClient) southBroken (threeLinks, [])) = []
   \<and> map (\<lambda>l. (ObjectMeta.Name l, Connected (ClusterLink.Status l), Error (ClusterLink.Status l)))
        (clusterLinks (fst (listClusterInfoStep (pickyDialer probeFailsClient) southBroken
           (threeLinks, [])))) =
       [(''east'', False, []),
        (''south'', False, ''Failed to build client: failed to parse kubeconfig: yaml: did not find expected key''),
        (''north'', False, [])]
   \<and> northNoServer \<in> set (clusterLinks threeLinks)
   \<and> DecodeString (pickyDialer probeFailsClient) (Kubeconfig (Spec northNoServer)) = Inr ''no-server''
   \<and> RESTConfigFromKubeConfig (pickyDialer probeFailsClient) ''no-server'' = Inr ''no-server''
   \<and> NewForConfig (pickyDialer probeFailsClient) ''no-server'' = Inl unreachable
   \<and> buildClientWithVersion (pickyDialer probeFailsClient) ''no-server''
        = Inl (Errorf_w ''failed to create client: '' unreachable)
   \<and> snd (listClusterInfoStep (pickyDialer probeFailsClient) northNoServer (threeLinks, [])) = []
   \<and> map (\<lambda>l. (ObjectMeta.Name l, Connected (ClusterLink.Status l), Error (ClusterLink.Status l)))
        (clusterLinks (fst (listClusterInfoStep (pickyDialer probeFailsClient) northNoServer
           (threeLinks, [])))) =
       [(''east'', False, []), (''south'', False, []),
        (''north'', False, ''Failed to build client: failed to create client: connection refused'')]"
proof -
  have n: "ObjectMeta.Name eastLink = ''east''" "ObjectMeta.Name southBroken = ''south''"
      "ObjectMeta.Name northNoServer = ''north''"
    by (simp_all add: eastLink_def southBroken_def northNoServer_def linkNamed_def)
  have h: "faults threeLinks (length (calls threeLinks)) = None"
      "eastLink \<in> set (clusterLinks threeLinks)"
      "southBroken \<in> set (clusterLinks threeLinks)"
      "northNoServer \<in> set (clusterLinks threeLinks)"
      "distinct (map ObjectMeta.Name (clusterLinks threeLinks))"
    by (simp_all add: threeLinks_def kubeWith_def eastLink_def southBroken_def northNoServer_def
        linkNamed_def)
  have e: "DecodeString (pickyDialer probeFailsClient) (Kubeconfig (Spec eastLink)) = Inr ''kubeconfig''"
      "RESTConfigFromKubeConfig (pickyDialer probeFailsClient) ''kubeconfig'' = Inr ''kubeconfig''"
      "NewForConfig (pickyDialer probeFailsClient) ''kubeconfig'' = Inr probeFailsClient"
      "ServerVersion probeFailsClient = Inl unreachable"
    by (simp_all add: pickyDialer_def eastLink_def linkNamed_def probeFailsClient_def)
  have s: "DecodeString (pickyDialer probeFailsClient) (Kubeconfig (Spec southBroken)) = Inr ''broken''"
      "RESTConfigFromKubeConfig (pickyDialer probeFailsClient) ''broken'' = Inl parseError"
    by (simp_all add: pickyDialer_def southBroken_def linkNamed_def)
  have o: "DecodeString (pickyDialer probeFailsClient) (Kubeconfig (Spec northNoServer)) = Inr ''no-server''"
      "RESTConfigFromKubeConfig (pickyDialer probeFailsClient) ''no-server'' = Inr ''no-server''"
      "NewForConfig (pickyDialer probeFailsClient) ''no-server'' = Inl unreachable"
    by (simp_all add: pickyDialer_def northNoServer_def linkNamed_def)
  have m1: "map (\<lambda>l. (ObjectMeta.Name l, Connected (ClusterLink.Status l), Version (ClusterLink.Status l)))
        (clusterLinks (fst (listClusterInfoStep (pickyDialer probeFailsClient) eastLink
           (threeLinks, [])))) = [(''east'', True, []), (''south'', False, []), (''north'', False, [])]"
    by (simp add: invoke_def kubeWith_def threeLinks_def
      listClusterInfoStep_def pickyDialer_def eastLink_def southBroken_def northNoServer_def
      linkNamed_def buildClientWithVersion_def
      probeFailsClient_def updateClusterStatus_def updateStatus_def Let_def emptyStatus_def)
  have m2: "map (\<lambda>l. (ObjectMeta.Name l, Connected (ClusterLink.Status l), Error (ClusterLink.Status l)))
        (clusterLinks (fst (listClusterInfoStep (pickyDialer probeFailsClient) southBroken
           (threeLinks, [])))) =
       [(''east'', False, []),
        (''south'', False, ''Failed to build client: failed to parse kubeconfig: yaml: did not find expected key''),
        (''north'', False, [])]"
    by (simp add: invoke_def kubeWith_def threeLinks_def
      listClusterInfoStep_def pickyDialer_def eastLink_def southBroken_def northNoServer_def
      linkNamed_def buildClientWithVersion_def parseError_def Errorf_w_def klogError_def
      probeFailsClient_def updateClusterStatus_def updateStatus_def Let_def emptyStatus_def)
  have m3: "map (\<lambda>l. (ObjectMeta.Name l, Connected (ClusterLink.Status l), Error (ClusterLink.Status l)))
        (clusterLinks (fst (listClusterInfoStep (pickyDialer probeFailsClient) northNoServer
           (threeLinks, [])))) =
       [(''east'', False, []), (''south'', False, []),
        (''north'', False, ''Failed to build client: failed to create client: connection refused'')]"
    by (simp add: invoke_def kubeWith_def threeLinks_def
      listClusterInfoStep_def pickyDialer_def eastLink_def southBroken_def northNoServer_def
      linkNamed_def buildClientWithVersion_def unreachable_def Errorf_w_def klogError_def
      probeFailsClient_def updateClusterStatus_def updateStatus_def Let_def emptyStatus_def)
  have t1: "buildClientWithVersion (pickyDialer probeFailsClient) ''broken''
        = Inl (Errorf_w ''failed to parse kubeconfig: '' parseError)"
    and t1': "snd (listClusterInfoStep (pickyDialer probeFailsClient) southBroken (threeLinks, [])) = []"
    and t1'': "\<exists>clusterInfos. snd (ListClusterInfo (pickyDialer probeFailsClient) threeLinks) = Inr clusterInfos
          \<and> map_of clusterInfos ''south'' = None"
    and t0: "buildClientWithVersion (pickyDialer probeFailsClient) ''kubeconfig'' = Inr (probeFailsClient, [])"
    and t0': "\<exists>clusterInfos. snd (ListClusterInfo (pickyDialer probeFailsClient) threeLinks) = Inr clusterInfos
          \<and> map_of clusterInfos ''east'' \<noteq> None"
    using version_probe_failure_tolerated[where k = threeLinks and clusterLink = eastLink
        and d = "pickyDialer probeFailsClient" and kubeconfigData = "''kubeconfig''"
        and restConfig = "''kubeconfig''" and client = probeFailsClient and err = unreachable
        and k' = threeLinks and clusterInfos' = "[]" and failing = southBroken
        and failingData = "''broken''"
        and buildErr = "Errorf_w ''failed to parse kubeconfig: '' parseError"] h e s n
    by simp_all
  have t2: "buildClientWithVersion (pickyDialer probeFailsClient) ''no-server''
        = Inl (Errorf_w ''failed to create client: '' unreachable)"
    and t2': "snd (listClusterInfoStep (pickyDialer probeFailsClient) northNoServer (threeLinks, [])) = []"
    and t2'': "\<exists>clusterInfos. snd (ListClusterInfo (pickyDialer probeFailsClient) threeLinks) = Inr clusterInfos
          \<and> map_of clusterInfos ''north'' = None"
    using version_probe_failure_tolerated[where k = threeLinks and clusterLink = eastLink
        and d = "pickyDialer probeFailsClient" and kubeconfigData = "''kubeconfig''"
        and restConfig = "''kubeconfig''" and client = probeFailsClient and err = unreachable
        and k' = threeLinks and clusterInfos' = "[]" and failing = northNoServer
        and failingData = "''no-server''"
        and buildErr = "Errorf_w ''failed to create client: '' unreachable"] h e o n
    by simp_all
  from t0' t1'' t2'' have all: "\<exists>clusterInfos.
       snd (ListClusterInfo (pickyDialer probeFailsClient) threeLinks) = Inr clusterInfos
          \<and> map_of clusterInfos ''east'' \<noteq> None \<and> map_of clusterInfos ''south'' = None
          \<and> map_of clusterInfos ''north'' = None"
    by auto
  show ?thesis
    using h e s o m1 m2 m3 t0 t1 t1' t2 t2' all by simp
qed

text \<open>
  With a descriptor whose client is built and whose version probe fails, the output map
  holds the descriptor and the stored status is connected, with no error message.
\<close>

theorem version_probe_failure_counterexample:
  "ServerVersion probeFailsClient = Inl unreachable
   \<and> snd (ListClusterInfo (dialerTo probeFailsClient) (kubeWith [eastLink] [] [])) =
       Inr [(''east'', \<lparr>ClusterInfo.Name = ''east'', Enabled = True, Client = probeFailsClient,
                        ClusterLink = eastLink\<lparr>Status := connectedStatus 1000 []\<rparr>\<rparr>)]
   \<and> clusterLinks (fst (ListClusterInfo (dialerTo probeFailsClient) (kubeWith [eastLink] [] []))) =
       [eastLink\<lparr>Status := connectedStatus 1000 []\<rparr>]
   \<and> Connected (connectedStatus 1000 []) \<and> Error (connectedStatus 1000 []) = []"
  by (simp add: example_probe_failure)
     (simp add: probeFailsClient_def kubeWith_def connectedStatus_def)

text \<open>
  C5. \<^verbatim>\<open>ListClusterInfo\<close> copies the enabled flag into the \<^verbatim>\<open>ClusterInfo\<close> and never
  tests it: a disabled descriptor with a well-formed credential is put in the output map,
  a status call is made for it and its stored status changes to connected.
\<close>

theorem disabled_descriptor_is_listed:
  "ClusterLinkSpec.Enabled (Spec westDisabled) = False
   \<and> snd (ListClusterInfo (dialerTo (fakeClientset [])) (kubeWith [westDisabled] [] [])) =
       Inr [(''west'', \<lparr>ClusterInfo.Name = ''west'', Enabled = False, Client = fakeClientset [],
                        ClusterLink = westDisabled\<lparr>Status := connectedStatus 1000 ''v1.28.0''\<rparr>\<rparr>)]
   \<and> calls (fst (ListClusterInfo (dialerTo (fakeClientset [])) (kubeWith [westDisabled] [] []))) =
       [ListClusterLinks, UpdateStatus ''west'']
   \<and> clusterLinks (fst (ListClusterInfo (dialerTo (fakeClientset [])) (kubeWith [westDisabled] [] []))) =
       [westDisabled\<lparr>Status := connectedStatus 1000 ''v1.28.0''\<rparr>]
   \<and> ClusterLink.Status westDisabled \<noteq> connectedStatus 1000 ''v1.28.0''"
  by (simp add: example_disabled)
     (simp add: westDisabled_def linkNamed_def kubeWith_def connectedStatus_def emptyStatus_def)

section \<open>Properties of the service discoverer\<close>

lemma klogError_fields [simp]:
  "calls (klogError line k) = calls k" "faults (klogError line k) = faults k"
  "clusterLinks (klogError line k) = clusterLinks k" "now (klogError line k) = now k"
  "endpointSlices (klogError line k) = endpointSlices k"
  "localServices (klogError line k) = localServices k"
  "localNamespaces (klogError line k) = localNamespaces k"
  by (simp_all add: klogError_def)


























section \<open>Properties of the reconciler\<close>

lemma noFaults_now: "noFaults k \<Longrightarrow> faults k (length (calls k)) = None"
  by (simp add: noFaults_def)

lemma noFaults_step [simp]:
  "noFaults k \<Longrightarrow> noFaults (k\<lparr>calls := calls k @ cs\<rparr>)"
  "noFaults k \<Longrightarrow> noFaults (k\<lparr>calls := calls k @ cs, endpointSlices := xs\<rparr>)"
  by (simp_all add: noFaults_def)

lemma noFaults_klogError [simp]: "noFaults (klogError line k) = noFaults k"
  by (simp add: noFaults_def)

lemma hasKey_sliceKey: "hasKey s namespace name = (sliceKey s = (namespace, name))"
  by (simp add: hasKey_def sliceKey_def)

lemma deleteSlice_noFaults:
  assumes "noFaults k"
  shows "\<exists>err. deleteSlice k slice =
     (k\<lparr>calls := calls k @ [DeleteSlice (ObjectMeta.Namespace slice) (ObjectMeta.Name slice)],
        endpointSlices := filter (\<lambda>s. sliceKey s \<noteq> sliceKey slice) (endpointSlices k)\<rparr>, err)
     \<and> (err = None \<or> err = Some notFound)"
proof (cases "find (\<lambda>s. hasKey s (ObjectMeta.Namespace slice) (ObjectMeta.Name slice)) (endpointSlices k)")
  case None
  then have "\<forall>s \<in> set (endpointSlices k). sliceKey s \<noteq> sliceKey slice"
    by (auto simp: find_None_iff hasKey_sliceKey sliceKey_def)
  then have "filter (\<lambda>s. sliceKey s \<noteq> sliceKey slice) (endpointSlices k) = endpointSlices k"
    by simp
  then show ?thesis
    using None noFaults_now[OF assms] by (simp add: deleteSlice_def invoke_def)
next
  case (Some a)
  then show ?thesis
    using noFaults_now[OF assms]
    by (simp add: deleteSlice_def invoke_def hasKey_sliceKey sliceKey_def)
qed

lemma IsNotFound_notFound [simp]: "IsNotFound notFound"
  by (simp add: IsNotFound_def notFound_def)

lemma deleteLoop_noFaults:
  assumes "noFaults k"
  shows "deleteLoop namespace activeClusters items k =
     (k\<lparr>calls := calls k @ map (\<lambda>s. DeleteSlice (ObjectMeta.Namespace s) (ObjectMeta.Name s))
                            (filter (toDelete activeClusters) items),
        endpointSlices := filter (\<lambda>s. sliceKey s \<notin> sliceKey ` set (filter (toDelete activeClusters) items))
                            (endpointSlices k)\<rparr>, None)"
  using assms
proof (induction items arbitrary: k)
  case Nil
  then show ?case by simp
next
  case (Cons slice items)
  show ?case
  proof (cases "toDelete activeClusters slice")
    case False
    then show ?thesis
      using Cons.IH[OF Cons.prems] by (auto simp: toDelete_def Let_def)
  next
    case True
    obtain err where d: "deleteSlice k slice =
       (k\<lparr>calls := calls k @ [DeleteSlice (ObjectMeta.Namespace slice) (ObjectMeta.Name slice)],
          endpointSlices := filter (\<lambda>s. sliceKey s \<noteq> sliceKey slice) (endpointSlices k)\<rparr>, err)"
      and e: "err = None \<or> err = Some notFound"
      using deleteSlice_noFaults[OF Cons.prems] by blast
    let ?k' = "k\<lparr>calls := calls k @ [DeleteSlice (ObjectMeta.Namespace slice) (ObjectMeta.Name slice)],
          endpointSlices := filter (\<lambda>s. sliceKey s \<noteq> sliceKey slice) (endpointSlices k)\<rparr>"
    have nf: "noFaults ?k'" using Cons.prems by simp
    have step: "deleteLoop namespace activeClusters (slice # items) k =
        deleteLoop namespace activeClusters items ?k'"
      using True d e by (auto simp: toDelete_def Let_def)
    have f: "filter (\<lambda>s. sliceKey s \<notin> sliceKey ` set (filter (toDelete activeClusters) items))
               (filter (\<lambda>s. sliceKey s \<noteq> sliceKey slice) (endpointSlices k)) =
             filter (\<lambda>s. sliceKey s \<notin> sliceKey ` set (filter (toDelete activeClusters) (slice # items)))
               (endpointSlices k)"
      using True by (auto intro: filter_cong)
    show ?thesis
      using step Cons.IH[OF nf] True f by simp
  qed
qed

lemma listSlices_noFaults:
  assumes "noFaults k"
  shows "listSlices k namespace sel =
     (k\<lparr>calls := calls k @ [ListSlices namespace sel]\<rparr>,
      Inr (filter (\<lambda>s. ObjectMeta.Namespace s = namespace \<and> matches sel (Labels s)) (endpointSlices k)))"
  using noFaults_now[OF assms] by (simp add: listSlices_def invoke_def)

lemma listed_toDelete:
  "(ObjectMeta.Namespace s = namespace \<and> matches (cleanupSelector serviceName) (Labels s)
      \<and> toDelete (set (map ClusterName active)) s)
   = isOrphan namespace serviceName active s"
  by (cases "map_of (Labels s) ClusterLabel")
     (auto simp: matches_def cleanupSelector_def toDelete_def isOrphan_def)

lemma filter_keys_distinct:
  assumes "distinct (map f xs)"
  shows "filter (\<lambda>x. f x \<notin> f ` set (filter P xs)) xs = filter (\<lambda>x. \<not> P x) xs"
proof (rule filter_cong[OF refl])
  fix x assume x: "x \<in> set xs"
  have inj: "inj_on f (set xs)"
    using assms by (simp add: distinct_map)
  show "(f x \<notin> f ` set (filter P xs)) = (\<not> P x)"
  proof
    assume "f x \<notin> f ` set (filter P xs)"
    then show "\<not> P x" using x by auto
  next
    assume np: "\<not> P x"
    show "f x \<notin> f ` set (filter P xs)"
    proof
      assume "f x \<in> f ` set (filter P xs)"
      then obtain y where y: "y \<in> set xs" "P y" "f x = f y" by auto
      then have "x = y" using inj x by (auto dest: inj_onD)
      with y np show False by simp
    qed
  qed
qed

lemma getService_noFaults:
  assumes "noFaults k"
  shows "getService k namespace name =
     (k\<lparr>calls := calls k @ [GetService namespace name]\<rparr>,
      case parentOf k namespace name of None \<Rightarrow> Inl notFound | Some svc \<Rightarrow> Inr svc)"
  using noFaults_now[OF assms]
  by (simp add: getService_def invoke_def parentOf_def split: option.splits)

lemma getSlice_noFaults:
  assumes "noFaults k"
  shows "getSlice k namespace name =
     (k\<lparr>calls := calls k @ [GetSlice namespace name]\<rparr>,
      case storedSlice k namespace name of None \<Rightarrow> Inl notFound | Some s \<Rightarrow> Inr s)"
  using noFaults_now[OF assms]
  by (simp add: getSlice_def invoke_def storedSlice_def split: option.splits)

lemma createSlice_noFaults:
  assumes "noFaults k"
    and "storedSlice k (ObjectMeta.Namespace slice) (ObjectMeta.Name slice) = None"
  shows "createSlice k slice =
     (k\<lparr>calls := calls k @ [CreateSlice (ObjectMeta.Namespace slice) (ObjectMeta.Name slice)],
        endpointSlices := endpointSlices k @ [slice]\<rparr>, None)"
  using noFaults_now[OF assms(1)] assms(2)
  by (simp add: createSlice_def invoke_def storedSlice_def)

lemma updateSlice_noFaults:
  assumes "noFaults k"
    and "storedSlice k (ObjectMeta.Namespace slice) (ObjectMeta.Name slice) = Some existing"
  shows "updateSlice k slice =
     (k\<lparr>calls := calls k @ [UpdateSlice (ObjectMeta.Namespace slice) (ObjectMeta.Name slice)],
        endpointSlices :=
          map (\<lambda>s. if hasKey s (ObjectMeta.Namespace slice) (ObjectMeta.Name slice) then slice else s)
            (endpointSlices k)\<rparr>, None)"
  using noFaults_now[OF assms(1)] assms(2)
  by (simp add: updateSlice_def invoke_def storedSlice_def)

lemma storedSlice_calls [simp]:
  "storedSlice (k\<lparr>calls := cs\<rparr>) namespace name = storedSlice k namespace name"
  by (simp add: storedSlice_def)

lemma storedSlice_key:
  "storedSlice k namespace name = Some s \<Longrightarrow> ObjectMeta.Namespace s = namespace \<and> ObjectMeta.Name s = name"
  by (auto simp: storedSlice_def hasKey_def dest: find_Some_iff[THEN iffD1])

lemma updateSliceForCluster_noFaults:
  assumes "noFaults k"
  shows "updateSliceForCluster k namespace serviceName ce =
     (case parentOf k namespace serviceName of
        None \<Rightarrow>
          (k\<lparr>calls := calls k @ [GetService namespace serviceName]\<rparr>,
           Some (Errorf_w (''failed to get service '' @ namespace @ ''/'' @ serviceName @ '': '') notFound))
      | Some service \<Rightarrow>
          (case storedSlice k namespace (sliceName serviceName (ClusterName ce)) of
             None \<Rightarrow>
               (k\<lparr>calls := calls k @ [GetService namespace serviceName,
                     GetSlice namespace (sliceName serviceName (ClusterName ce)),
                     CreateSlice namespace (sliceName serviceName (ClusterName ce))],
                  endpointSlices := endpointSlices k @ [desiredSlice namespace serviceName service ce]\<rparr>,
                None)
           | Some existing \<Rightarrow>
               (k\<lparr>calls := calls k @ [GetService namespace serviceName,
                     GetSlice namespace (sliceName serviceName (ClusterName ce)),
                     UpdateSlice namespace (sliceName serviceName (ClusterName ce))],
                  endpointSlices :=
                    map (\<lambda>s. if hasKey s namespace (sliceName serviceName (ClusterName ce))
                              then overwritten serviceName ce existing else s)
                      (endpointSlices k)\<rparr>, None)))"
proof (cases "parentOf k namespace serviceName")
  case None
  then show ?thesis
    by (simp add: updateSliceForCluster_def getService_noFaults[OF assms])
next
  case (Some service)
  let ?k1 = "k\<lparr>calls := calls k @ [GetService namespace serviceName]\<rparr>"
  let ?n = "sliceName serviceName (ClusterName ce)"
  let ?k2 = "?k1\<lparr>calls := calls ?k1 @ [GetSlice namespace ?n]\<rparr>"
  have nf1: "noFaults ?k1" and nf2: "noFaults ?k2" using assms by simp_all
  show ?thesis
  proof (cases "storedSlice k namespace ?n")
    case None
    have c: "createSlice ?k2 (desiredSlice namespace serviceName service ce) =
        (?k2\<lparr>calls := calls ?k2 @ [CreateSlice namespace ?n],
             endpointSlices := endpointSlices ?k2 @ [desiredSlice namespace serviceName service ce]\<rparr>, None)"
      using createSlice_noFaults[OF nf2, of "desiredSlice namespace serviceName service ce"] None
      by (simp add: desiredSlice_def storedSlice_def)
    show ?thesis
      using Some None c
      by (simp add: updateSliceForCluster_def getService_noFaults[OF assms]
          getSlice_noFaults[OF nf1] desiredSlice_def[symmetric] Let_def)
  next
    case (Some existing)
    have key: "ObjectMeta.Namespace existing = namespace" "ObjectMeta.Name existing = ?n"
      using storedSlice_key[OF Some] by simp_all
    have u: "updateSlice ?k2 (overwritten serviceName ce existing) =
        (?k2\<lparr>calls := calls ?k2 @ [UpdateSlice namespace ?n],
             endpointSlices := map (\<lambda>s. if hasKey s namespace ?n
                 then overwritten serviceName ce existing else s) (endpointSlices ?k2)\<rparr>, None)"
      using updateSlice_noFaults[OF nf2, of "overwritten serviceName ce existing" existing] Some key
      by (simp add: overwritten_def storedSlice_def)
    show ?thesis
      using \<open>parentOf k namespace serviceName = Some service\<close> Some u
      by (simp add: updateSliceForCluster_def getService_noFaults[OF assms]
          getSlice_noFaults[OF nf1] overwritten_def[symmetric] Let_def)
  qed
qed

lemmas store_defs = syncedStore_def kubeWith_def managedSlice_def desiredSlice_def groupOf_def
  localNative_def sliceOf_def webService_def endpointAt_def httpPort_def sliceName_def
  ClusterLabel_def ServiceNameLabel_def ManagedByLabel_def ManagedByValue_def



lemma cleanupOrphanedSlices_noFaults:
  assumes "noFaults k" and "wellFormed k"
  shows "cleanupOrphanedSlices k namespace serviceName activeClusterEndpoints =
     (k\<lparr>calls := calls k @ ListSlices namespace (cleanupSelector serviceName)
                  # map (\<lambda>s. DeleteSlice namespace (ObjectMeta.Name s))
                      (filter (isOrphan namespace serviceName activeClusterEndpoints) (endpointSlices k)),
        endpointSlices := filter (\<lambda>s. \<not> isOrphan namespace serviceName activeClusterEndpoints s)
                            (endpointSlices k)\<rparr>, None)"
proof -
  let ?A = "set (map ClusterName activeClusterEndpoints)"
  let ?listed = "\<lambda>s. ObjectMeta.Namespace s = namespace \<and> matches (cleanupSelector serviceName) (Labels s)"
  let ?k1 = "k\<lparr>calls := calls k @ [ListSlices namespace (cleanupSelector serviceName)]\<rparr>"
  have nf: "noFaults ?k1" using assms(1) by simp
  have items: "filter (toDelete ?A) (filter ?listed (endpointSlices k)) =
      filter (isOrphan namespace serviceName activeClusterEndpoints) (endpointSlices k)"
  proof -
    have "filter (toDelete ?A) (filter ?listed (endpointSlices k)) =
        filter (\<lambda>s. ?listed s \<and> toDelete ?A s) (endpointSlices k)"
      by (simp only: filter_filter conj_commute)
    also have "\<dots> = filter (isOrphan namespace serviceName activeClusterEndpoints) (endpointSlices k)"
      using listed_toDelete[of _ namespace serviceName activeClusterEndpoints]
      by (intro filter_cong refl) (simp only: conj_assoc)
    finally show ?thesis .
  qed
  have names: "map (\<lambda>s. DeleteSlice (ObjectMeta.Namespace s) (ObjectMeta.Name s))
        (filter (isOrphan namespace serviceName activeClusterEndpoints) (endpointSlices k)) =
      map (\<lambda>s. DeleteSlice namespace (ObjectMeta.Name s))
        (filter (isOrphan namespace serviceName activeClusterEndpoints) (endpointSlices k))"
    by (rule map_cong) (auto simp: isOrphan_def)
  have store: "filter (\<lambda>s. sliceKey s \<notin> sliceKey `
          set (filter (isOrphan namespace serviceName activeClusterEndpoints) (endpointSlices k)))
        (endpointSlices k) =
      filter (\<lambda>s. \<not> isOrphan namespace serviceName activeClusterEndpoints s) (endpointSlices k)"
    using assms(2) unfolding wellFormed_def by (rule filter_keys_distinct)
  have c: "cleanupOrphanedSlices k namespace serviceName activeClusterEndpoints =
      deleteLoop namespace ?A (filter ?listed (endpointSlices k)) ?k1"
    using listSlices_noFaults[OF assms(1), of namespace "cleanupSelector serviceName"]
    by (simp add: cleanupOrphanedSlices_def cleanupSelector_def Let_def)
  have d: "deleteLoop namespace ?A (filter ?listed (endpointSlices k)) ?k1 =
      (k\<lparr>calls := calls k @ ListSlices namespace (cleanupSelector serviceName)
           # map (\<lambda>s. DeleteSlice (ObjectMeta.Namespace s) (ObjectMeta.Name s))
               (filter (toDelete ?A) (filter ?listed (endpointSlices k))),
         endpointSlices := filter (\<lambda>s. sliceKey s \<notin> sliceKey `
               set (filter (toDelete ?A) (filter ?listed (endpointSlices k))))
             (endpointSlices k)\<rparr>, None)"
    unfolding deleteLoop_noFaults[OF nf] by simp
  show ?thesis
    unfolding c d items names store ..
qed

lemma isGetService_simps [simp]:
  "isGetService (GetService namespace name)"
  "\<not> isGetService ListClusterLinks"
  "\<not> isGetService (UpdateStatus name)"
  "\<not> isGetService (GetSlice namespace name)"
  "\<not> isGetService (CreateSlice namespace name)"
  "\<not> isGetService (UpdateSlice namespace name)"
  "\<not> isGetService (DeleteSlice namespace name)"
  "\<not> isGetService (ListSlices namespace sel)"
  "\<not> isGetService (GetNamespace name)"
  "\<not> isGetService (CreateNamespace name)"
  "\<not> isGetService (ListLocalServices inNamespace)"
  "\<not> isGetService (CreateService namespace name)"
  by (simp_all add: isGetService_def)

lemma isStepCall_simps [simp]:
  "isStepCall (GetService namespace name)"
  "isStepCall (ListSlices namespace sel)"
  "\<not> isStepCall ListClusterLinks"
  "\<not> isStepCall (UpdateStatus name)"
  "\<not> isStepCall (GetSlice namespace name)"
  "\<not> isStepCall (CreateSlice namespace name)"
  "\<not> isStepCall (UpdateSlice namespace name)"
  "\<not> isStepCall (DeleteSlice namespace name)"
  "\<not> isStepCall (GetNamespace name)"
  "\<not> isStepCall (CreateNamespace name)"
  "\<not> isStepCall (ListLocalServices inNamespace)"
  "\<not> isStepCall (CreateService namespace name)"
  by (simp_all add: isStepCall_def)

lemma isDeleteCall_simps [simp]:
  "isDeleteCall (DeleteSlice namespace name)"
  "\<not> isDeleteCall ListClusterLinks"
  "\<not> isDeleteCall (UpdateStatus name)"
  "\<not> isDeleteCall (GetService namespace name)"
  "\<not> isDeleteCall (GetSlice namespace name)"
  "\<not> isDeleteCall (CreateSlice namespace name)"
  "\<not> isDeleteCall (UpdateSlice namespace name)"
  "\<not> isDeleteCall (ListSlices namespace sel)"
  "\<not> isDeleteCall (GetNamespace name)"
  "\<not> isDeleteCall (CreateNamespace name)"
  "\<not> isDeleteCall (ListLocalServices inNamespace)"
  "\<not> isDeleteCall (CreateService namespace name)"
  by (simp_all add: isDeleteCall_def)


lemma invoke_trace:
  "calls (fst (invoke call k)) = calls k @ [call]" "klog (fst (invoke call k)) = klog k"
  by (simp_all add: invoke_def)




















lemmas reconcile_defs = UpdateEndpointSlices_def updateSliceForCluster_def cleanupOrphanedSlices_def
  getService_def getSlice_def createSlice_def updateSlice_def deleteSlice_def listSlices_def
  invoke_def hasKey_def matches_def klogError_def Errorf_w_def IsNotFound_def notFound_def Let_def












lemma label_keys_distinct:
  "ServiceNameLabel \<noteq> ClusterLabel" "ServiceNameLabel \<noteq> ManagedByLabel" "ClusterLabel \<noteq> ManagedByLabel"
  "ClusterLabel \<noteq> ServiceNameLabel" "ManagedByLabel \<noteq> ServiceNameLabel" "ManagedByLabel \<noteq> ClusterLabel"
  by (simp_all add: ServiceNameLabel_def ClusterLabel_def ManagedByLabel_def)

lemma sliceName_inj: "(sliceName serviceName c = sliceName serviceName c') = (c = c')"
  by (simp add: sliceName_def)

lemma find_append_iff:
  "find P (xs @ ys) = (case find P xs of None \<Rightarrow> find P ys | Some x \<Rightarrow> Some x)"
  by (induction xs) simp_all

lemma find_map_replace:
  assumes "find P xs = Some e" and "P s"
  shows "find P (map (\<lambda>t. if P t then s else t) xs) = Some s"
  using assms by (induction xs) (auto split: if_splits)

lemma find_map_other:
  assumes "\<And>t. Q t \<Longrightarrow> \<not> P t" and "\<not> P s"
  shows "find P (map (\<lambda>t. if Q t then s else t) xs) = find P xs"
  using assms by (induction xs) auto

lemma find_filter_keep:
  assumes "find P xs = Some s" and "Q s"
  shows "find P (filter Q xs) = Some s"
  using assms by (induction xs) (auto split: if_splits)

lemma find_filter_none:
  "find P xs = None \<Longrightarrow> find P (filter Q xs) = None"
  by (induction xs) (auto split: if_splits)

lemma map_replace_same:
  assumes "distinct (map f xs)" and "s \<in> set xs"
  shows "map (\<lambda>t. if f t = f s then s else t) xs = xs"
proof -
  have inj: "inj_on f (set xs)" using assms(1) by (simp add: distinct_map)
  have "\<And>t. t \<in> set xs \<Longrightarrow> (if f t = f s then s else t) = t"
    using inj assms(2) by (auto dest: inj_onD)
  then show ?thesis by (simp add: map_idI)
qed

lemma storedSlice_mem:
  "storedSlice k namespace name = Some s \<Longrightarrow> s \<in> set (endpointSlices k) \<and> sliceKey s = (namespace, name)"
  by (auto simp: storedSlice_def hasKey_sliceKey find_Some_iff)

lemma storedSlice_none:
  "storedSlice k namespace name = None \<Longrightarrow> (namespace, name) \<notin> sliceKey ` set (endpointSlices k)"
  by (auto simp: storedSlice_def hasKey_sliceKey find_None_iff)

lemma overwritten_key [simp]:
  "ObjectMeta.Namespace (overwritten serviceName ce s) = ObjectMeta.Namespace s"
  "ObjectMeta.Name (overwritten serviceName ce s) = ObjectMeta.Name s"
  "sliceKey (overwritten serviceName ce s) = sliceKey s"
  by (simp_all add: overwritten_def sliceKey_def)

lemma overwritten_settled:
  assumes "EndpointSlice.Endpoints s = ClusterEndpoints.Endpoints ce"
    and "EndpointSlice.Ports s = ClusterEndpoints.Ports ce"
    and "map_of (Labels s) ServiceNameLabel = Some serviceName"
    and "map_of (Labels s) ClusterLabel = Some (ClusterName ce)"
    and "map_of (Labels s) ManagedByLabel = Some ManagedByValue"
  shows "overwritten serviceName ce s = s"
proof -
  have "AList.update ManagedByLabel ManagedByValue
          (AList.update ClusterLabel (ClusterName ce)
             (AList.update ServiceNameLabel serviceName (Labels s))) = Labels s"
    using assms(3-5) by (simp add: update_triv)
  then show ?thesis
    using assms(1,2) by (simp add: overwritten_def)
qed

lemma overwritten_fields:
  "EndpointSlice.Endpoints (overwritten serviceName ce s) = ClusterEndpoints.Endpoints ce"
  "EndpointSlice.Ports (overwritten serviceName ce s) = ClusterEndpoints.Ports ce"
  "map_of (Labels (overwritten serviceName ce s)) ServiceNameLabel = Some serviceName"
  "map_of (Labels (overwritten serviceName ce s)) ClusterLabel = Some (ClusterName ce)"
  "map_of (Labels (overwritten serviceName ce s)) ManagedByLabel = Some ManagedByValue"
  by (simp_all add: overwritten_def update_conv' label_keys_distinct)

lemma desiredSlice_fields:
  "ObjectMeta.Namespace (desiredSlice namespace serviceName service ce) = namespace"
  "ObjectMeta.Name (desiredSlice namespace serviceName service ce) = sliceName serviceName (ClusterName ce)"
  "EndpointSlice.Endpoints (desiredSlice namespace serviceName service ce) = ClusterEndpoints.Endpoints ce"
  "EndpointSlice.Ports (desiredSlice namespace serviceName service ce) = ClusterEndpoints.Ports ce"
  "map_of (Labels (desiredSlice namespace serviceName service ce)) ServiceNameLabel = Some serviceName"
  "map_of (Labels (desiredSlice namespace serviceName service ce)) ClusterLabel = Some (ClusterName ce)"
  "map_of (Labels (desiredSlice namespace serviceName service ce)) ManagedByLabel = Some ManagedByValue"
  by (simp_all add: desiredSlice_def label_keys_distinct)

lemma parentOf_fields [simp]:
  "parentOf (k\<lparr>calls := cs\<rparr>) namespace name = parentOf k namespace name"
  "parentOf (k\<lparr>calls := cs, endpointSlices := xs\<rparr>) namespace name = parentOf k namespace name"
  "parentOf (klogError line k) namespace name = parentOf k namespace name"
  by (simp_all add: parentOf_def klogError_def)

lemma storedSlice_klogError [simp]:
  "storedSlice (klogError line k) namespace name = storedSlice k namespace name"
  by (simp add: storedSlice_def)

lemma settled_cong:
  "storedSlice k' namespace (sliceName serviceName (ClusterName ce)) =
   storedSlice k namespace (sliceName serviceName (ClusterName ce)) \<Longrightarrow>
   settled namespace serviceName ce k' = settled namespace serviceName ce k"
  by (simp add: settled_def)

lemma wellFormed_fields [simp]:
  "wellFormed (k\<lparr>calls := cs\<rparr>) = wellFormed k"
  "wellFormed (klogError line k) = wellFormed k"
  by (simp_all add: wellFormed_def)

text \<open>One successful update, on a store without faults that holds the parent service.\<close>

lemma update_step:
  fixes k :: kube and ce :: ClusterEndpoints
  assumes nf: "noFaults k" and p: "parentOf k namespace serviceName = Some service"
  defines "k' \<equiv> fst (updateSliceForCluster k namespace serviceName ce)"
  shows "snd (updateSliceForCluster k namespace serviceName ce) = None"
    and "noFaults k'"
    and "parentOf k' namespace serviceName = Some service"
    and "wellFormed k \<Longrightarrow> wellFormed k'"
    and "settled namespace serviceName ce k'"
    and "\<And>n. n \<noteq> sliceName serviceName (ClusterName ce) \<Longrightarrow>
           storedSlice k' namespace n = storedSlice k namespace n"
proof -
  let ?n = "sliceName serviceName (ClusterName ce)"
  note u = updateSliceForCluster_noFaults[OF nf, of namespace serviceName ce]
  show "snd (updateSliceForCluster k namespace serviceName ce) = None"
    using u p by (simp split: option.splits)
  show "noFaults k'"
    using u p nf by (simp add: k'_def split: option.splits)
  show "parentOf k' namespace serviceName = Some service"
    using u p by (simp add: k'_def split: option.splits)
  show "wellFormed k'" if wf: "wellFormed k"
  proof (cases "storedSlice k namespace ?n")
    case None
    have "sliceKey (desiredSlice namespace serviceName service ce) \<notin> sliceKey ` set (endpointSlices k)"
      using storedSlice_none[OF None] by (simp add: sliceKey_def desiredSlice_fields)
    then show ?thesis
      using u p None wf by (simp add: k'_def wellFormed_def)
  next
    case (Some e)
    let ?f = "\<lambda>s. if hasKey s namespace ?n then overwritten serviceName ce e else s"
    have eq: "map sliceKey (map ?f (endpointSlices k)) = map sliceKey (endpointSlices k)"
      using storedSlice_mem[OF Some] by (auto simp: hasKey_sliceKey)
    have st: "endpointSlices k' = map ?f (endpointSlices k)"
      using u p Some by (simp add: k'_def)
    show ?thesis
      using wf unfolding wellFormed_def st eq .
  qed
  show "settled namespace serviceName ce k'"
  proof (cases "storedSlice k namespace ?n")
    case None
    have "storedSlice k' namespace ?n = Some (desiredSlice namespace serviceName service ce)"
      using u p None
      by (simp add: k'_def storedSlice_def find_append_iff hasKey_def desiredSlice_fields)
    then show ?thesis by (simp add: settled_def desiredSlice_fields)
  next
    case (Some e)
    have "hasKey (overwritten serviceName ce e) namespace ?n"
      using storedSlice_mem[OF Some] by (simp add: hasKey_sliceKey)
    then have "storedSlice k' namespace ?n = Some (overwritten serviceName ce e)"
      using u p Some find_map_replace[of "\<lambda>s. hasKey s namespace ?n" "endpointSlices k" e
          "overwritten serviceName ce e"]
      by (simp add: k'_def storedSlice_def)
    then show ?thesis by (simp add: settled_def overwritten_fields)
  qed
  show "storedSlice k' namespace n = storedSlice k namespace n"
    if ne: "n \<noteq> sliceName serviceName (ClusterName ce)" for n
  proof (cases "storedSlice k namespace ?n")
    case None
    have "\<not> hasKey (desiredSlice namespace serviceName service ce) namespace n"
      using ne by (simp add: hasKey_def desiredSlice_fields)
    then show ?thesis
      using u p None
      by (simp add: k'_def storedSlice_def find_append_iff split: option.splits)
  next
    case (Some e)
    have a: "\<And>t. hasKey t namespace ?n \<Longrightarrow> \<not> hasKey t namespace n"
      using ne by (auto simp: hasKey_def)
    have b: "\<not> hasKey (overwritten serviceName ce e) namespace n"
      using storedSlice_mem[OF Some] ne by (simp add: hasKey_sliceKey)
    show ?thesis
      using u p Some find_map_other[of "\<lambda>t. hasKey t namespace ?n" "\<lambda>t. hasKey t namespace n"
          "overwritten serviceName ce e" "endpointSlices k", OF a b]
      by (simp add: k'_def storedSlice_def)
  qed
qed

lemma update_settled:
  assumes nf: "noFaults k" and p: "parentOf k namespace serviceName = Some service"
    and wf: "wellFormed k" and st: "settled namespace serviceName ce k"
  shows "updateSliceForCluster k namespace serviceName ce =
     (k\<lparr>calls := calls k @ updateCalls namespace serviceName ce\<rparr>, None)"
proof -
  let ?n = "sliceName serviceName (ClusterName ce)"
  obtain e where e: "storedSlice k namespace ?n = Some e"
    using st by (auto simp: settled_def split: option.splits)
  have o: "overwritten serviceName ce e = e"
    using st e by (intro overwritten_settled) (simp_all add: settled_def)
  have m: "e \<in> set (endpointSlices k)" "sliceKey e = (namespace, ?n)"
    using storedSlice_mem[OF e] by simp_all
  have "map (\<lambda>s. if hasKey s namespace ?n then e else s) (endpointSlices k) = endpointSlices k"
    using map_replace_same[of sliceKey "endpointSlices k" e] wf m
    by (simp add: wellFormed_def hasKey_sliceKey)
  moreover have "updateSliceForCluster k namespace serviceName ce =
     (k\<lparr>calls := calls k @ updateCalls namespace serviceName ce,
        endpointSlices := map (\<lambda>s. if hasKey s namespace ?n then e else s) (endpointSlices k)\<rparr>, None)"
    using updateSliceForCluster_noFaults[OF nf, of namespace serviceName ce] p e
    by (simp add: updateCalls_def o)
  ultimately show ?thesis by simp
qed

lemma update_noParent:
  assumes nf: "noFaults k" and p: "parentOf k namespace serviceName = None"
  shows "\<exists>err. updateSliceForCluster k namespace serviceName ce =
     (k\<lparr>calls := calls k @ [GetService namespace serviceName]\<rparr>, Some err)"
  using updateSliceForCluster_noFaults[OF nf, of namespace serviceName ce] p by simp

lemma updateLoop_first:
  assumes "noFaults k" and "wellFormed k" and "parentOf k namespace serviceName = Some service"
    and "distinct (map ClusterName clusterEndpoints)"
  shows "noFaults (updateLoop namespace serviceName clusterEndpoints k)
    \<and> wellFormed (updateLoop namespace serviceName clusterEndpoints k)
    \<and> parentOf (updateLoop namespace serviceName clusterEndpoints k) namespace serviceName = Some service
    \<and> (\<forall>ce \<in> set clusterEndpoints. settled namespace serviceName ce
           (updateLoop namespace serviceName clusterEndpoints k))
    \<and> (\<forall>n. n \<notin> sliceName serviceName ` ClusterName ` set clusterEndpoints \<longrightarrow>
           storedSlice (updateLoop namespace serviceName clusterEndpoints k) namespace n =
           storedSlice k namespace n)"
  using assms
proof (induction clusterEndpoints arbitrary: k)
  case Nil
  then show ?case by simp
next
  case (Cons ce rest)
  let ?k1 = "fst (updateSliceForCluster k namespace serviceName ce)"
  note s = update_step[OF Cons.prems(1) Cons.prems(3), where ce = ce]
  have step: "updateLoop namespace serviceName (ce # rest) k = updateLoop namespace serviceName rest ?k1"
    using s(1) by (cases "updateSliceForCluster k namespace serviceName ce") simp
  have d: "distinct (map ClusterName rest)" and notin: "ClusterName ce \<notin> ClusterName ` set rest"
    using Cons.prems(4) by simp_all
  note ih = Cons.IH[OF s(2) s(4)[OF Cons.prems(2)] s(3) d]
  let ?k' = "updateLoop namespace serviceName rest ?k1"
  have n: "sliceName serviceName (ClusterName ce) \<notin> sliceName serviceName ` ClusterName ` set rest"
    using notin by (auto simp: sliceName_inj)
  have "storedSlice ?k' namespace (sliceName serviceName (ClusterName ce)) =
      storedSlice ?k1 namespace (sliceName serviceName (ClusterName ce))"
    using ih n by blast
  then have here: "settled namespace serviceName ce ?k'"
    using s(5) settled_cong by blast
  have frame: "storedSlice ?k' namespace n = storedSlice k namespace n"
    if "n \<notin> sliceName serviceName ` ClusterName ` set (ce # rest)" for n
  proof -
    have "n \<noteq> sliceName serviceName (ClusterName ce)"
      and "n \<notin> sliceName serviceName ` ClusterName ` set rest"
      using that by auto
    then show ?thesis using ih s(6)[where n = n] by simp
  qed
  show ?case
    unfolding step using ih here frame by auto
qed

lemma updateLoop_noParent:
  assumes "noFaults k" and "parentOf k namespace serviceName = None"
  shows "noFaults (updateLoop namespace serviceName clusterEndpoints k)
    \<and> endpointSlices (updateLoop namespace serviceName clusterEndpoints k) = endpointSlices k
    \<and> parentOf (updateLoop namespace serviceName clusterEndpoints k) namespace serviceName = None
    \<and> calls (updateLoop namespace serviceName clusterEndpoints k) =
        calls k @ map (\<lambda>ce. GetService namespace serviceName) clusterEndpoints"
  using assms
proof (induction clusterEndpoints arbitrary: k)
  case Nil
  then show ?case by simp
next
  case (Cons ce rest)
  obtain err where u: "updateSliceForCluster k namespace serviceName ce =
     (k\<lparr>calls := calls k @ [GetService namespace serviceName]\<rparr>, Some err)"
    using update_noParent[OF Cons.prems, of ce] by blast
  let ?k1 = "klogError (''Failed to update EndpointSlice for cluster '' @ ClusterName ce
               @ '', service '' @ namespace @ ''/'' @ serviceName @ '': '' @ error.Message err)
               (k\<lparr>calls := calls k @ [GetService namespace serviceName]\<rparr>)"
  have step: "updateLoop namespace serviceName (ce # rest) k = updateLoop namespace serviceName rest ?k1"
    using u by simp
  have nf: "noFaults ?k1" and p: "parentOf ?k1 namespace serviceName = None"
    using Cons.prems by simp_all
  show ?case
    unfolding step using Cons.IH[OF nf p] by simp
qed

lemma updateLoop_settled:
  assumes "noFaults k" and "wellFormed k" and "parentOf k namespace serviceName = Some service"
    and "\<forall>ce \<in> set clusterEndpoints. settled namespace serviceName ce k"
  shows "updateLoop namespace serviceName clusterEndpoints k =
     k\<lparr>calls := calls k @ concat (map (updateCalls namespace serviceName) clusterEndpoints)\<rparr>"
  using assms
proof (induction clusterEndpoints arbitrary: k)
  case Nil
  then show ?case by simp
next
  case (Cons ce rest)
  let ?k1 = "k\<lparr>calls := calls k @ updateCalls namespace serviceName ce\<rparr>"
  have u: "updateSliceForCluster k namespace serviceName ce = (?k1, None)"
    using update_settled[OF Cons.prems(1) Cons.prems(3) Cons.prems(2)] Cons.prems(4) by simp
  have st: "\<forall>ce \<in> set rest. settled namespace serviceName ce ?k1"
    using Cons.prems(4) by (simp add: settled_def)
  have "updateLoop namespace serviceName rest ?k1 =
      ?k1\<lparr>calls := calls ?k1 @ concat (map (updateCalls namespace serviceName) rest)\<rparr>"
    using Cons.IH[of ?k1] Cons.prems(1-3) st by simp
  then show ?case using u by simp
qed

lemma cleanup_effect:
  assumes nf: "noFaults k" and wf: "wellFormed k"
  shows "snd (cleanupOrphanedSlices k namespace serviceName active) = None"
    and "noFaults (fst (cleanupOrphanedSlices k namespace serviceName active))"
    and "wellFormed (fst (cleanupOrphanedSlices k namespace serviceName active))"
    and "parentOf (fst (cleanupOrphanedSlices k namespace serviceName active)) namespace serviceName =
           parentOf k namespace serviceName"
    and "endpointSlices (fst (cleanupOrphanedSlices k namespace serviceName active)) =
           filter (\<lambda>s. \<not> isOrphan namespace serviceName active s) (endpointSlices k)"
    and "calls (fst (cleanupOrphanedSlices k namespace serviceName active)) =
           calls k @ ListSlices namespace (cleanupSelector serviceName)
             # map (\<lambda>s. DeleteSlice namespace (ObjectMeta.Name s))
                 (filter (isOrphan namespace serviceName active) (endpointSlices k))"
proof -
  note c = cleanupOrphanedSlices_noFaults[OF nf wf, of namespace serviceName active]
  show "snd (cleanupOrphanedSlices k namespace serviceName active) = None"
    and "endpointSlices (fst (cleanupOrphanedSlices k namespace serviceName active)) =
           filter (\<lambda>s. \<not> isOrphan namespace serviceName active s) (endpointSlices k)"
    and "calls (fst (cleanupOrphanedSlices k namespace serviceName active)) =
           calls k @ ListSlices namespace (cleanupSelector serviceName)
             # map (\<lambda>s. DeleteSlice namespace (ObjectMeta.Name s))
                 (filter (isOrphan namespace serviceName active) (endpointSlices k))"
    and "parentOf (fst (cleanupOrphanedSlices k namespace serviceName active)) namespace serviceName =
           parentOf k namespace serviceName"
    unfolding c by (simp_all add: parentOf_def)
  show "noFaults (fst (cleanupOrphanedSlices k namespace serviceName active))"
    unfolding c using nf by (simp add: noFaults_def)
  show "wellFormed (fst (cleanupOrphanedSlices k namespace serviceName active))"
    unfolding c using wf by (simp add: wellFormed_def distinct_map_filter)
qed

lemma cleanup_keeps_settled:
  assumes nf: "noFaults k" and wf: "wellFormed k"
    and st: "settled namespace serviceName ce k" and m: "ce \<in> set active"
  shows "settled namespace serviceName ce (fst (cleanupOrphanedSlices k namespace serviceName active))"
proof -
  let ?n = "sliceName serviceName (ClusterName ce)"
  obtain s where s: "storedSlice k namespace ?n = Some s"
      and l: "map_of (Labels s) ClusterLabel = Some (ClusterName ce)"
    using st by (auto simp: settled_def split: option.splits)
  have "\<not> isOrphan namespace serviceName active s"
    using l m by (simp add: isOrphan_def)
  then have "storedSlice (fst (cleanupOrphanedSlices k namespace serviceName active)) namespace ?n = Some s"
    using s find_filter_keep[of "\<lambda>s. hasKey s namespace ?n" "endpointSlices k" s
        "\<lambda>s. \<not> isOrphan namespace serviceName active s"]
    by (simp add: storedSlice_def cleanup_effect(5)[OF nf wf])
  then show ?thesis using st s by (simp add: settled_def)
qed

lemma UpdateEndpointSlices_noFaults:
  assumes "noFaults (updateLoop namespace serviceName clusterEndpoints k)"
    and "wellFormed (updateLoop namespace serviceName clusterEndpoints k)"
  shows "fst (UpdateEndpointSlices k namespace serviceName clusterEndpoints) =
     fst (cleanupOrphanedSlices (updateLoop namespace serviceName clusterEndpoints k)
            namespace serviceName clusterEndpoints)"
  using cleanup_effect(1)[OF assms, of namespace serviceName clusterEndpoints]
  by (cases "cleanupOrphanedSlices (updateLoop namespace serviceName clusterEndpoints k)
            namespace serviceName clusterEndpoints")
     (simp add: UpdateEndpointSlices_def)

lemma updateLoop_wellFormed_noParent:
  assumes "noFaults k" and "wellFormed k" and "parentOf k namespace serviceName = None"
  shows "wellFormed (updateLoop namespace serviceName clusterEndpoints k)"
  using updateLoop_noParent[OF assms(1,3), of clusterEndpoints] assms(2)
  by (simp add: wellFormed_def)

lemma first_run_converges:
  assumes nf: "noFaults k" and wf: "wellFormed k"
    and d: "distinct (map ClusterName clusterEndpoints)"
  shows "converged namespace serviceName clusterEndpoints
           (fst (UpdateEndpointSlices k namespace serviceName clusterEndpoints))"
    and "parentOf (fst (UpdateEndpointSlices k namespace serviceName clusterEndpoints)) namespace serviceName
           = parentOf k namespace serviceName"
proof -
  let ?k1 = "updateLoop namespace serviceName clusterEndpoints k"
  let ?k2 = "fst (cleanupOrphanedSlices ?k1 namespace serviceName clusterEndpoints)"
  have k1: "noFaults ?k1 \<and> wellFormed ?k1
      \<and> parentOf ?k1 namespace serviceName = parentOf k namespace serviceName
      \<and> (parentOf k namespace serviceName = None
           \<or> (\<forall>ce \<in> set clusterEndpoints. settled namespace serviceName ce ?k1))"
  proof (cases "parentOf k namespace serviceName")
    case None
    then show ?thesis
      using updateLoop_noParent[OF nf None, of clusterEndpoints]
        updateLoop_wellFormed_noParent[OF nf wf None, of clusterEndpoints]
      by simp
  next
    case (Some service)
    then show ?thesis
      using updateLoop_first[OF nf wf Some d] by simp
  qed
  then have nf1: "noFaults ?k1" and wf1: "wellFormed ?k1" by simp_all
  have e: "fst (UpdateEndpointSlices k namespace serviceName clusterEndpoints) = ?k2"
    by (rule UpdateEndpointSlices_noFaults[OF nf1 wf1])
  note c = cleanup_effect[OF nf1 wf1, of namespace serviceName clusterEndpoints]
  have st: "parentOf ?k2 namespace serviceName = None
      \<or> list_all (\<lambda>ce. settled namespace serviceName ce ?k2) clusterEndpoints"
    using k1 c(4) cleanup_keeps_settled[OF nf1 wf1, of namespace serviceName _ clusterEndpoints]
    by (auto simp: list_all_iff)
  have o: "filter (isOrphan namespace serviceName clusterEndpoints) (endpointSlices ?k2) = []"
    unfolding c(5) by (simp add: filter_empty_conv)
  show "converged namespace serviceName clusterEndpoints
           (fst (UpdateEndpointSlices k namespace serviceName clusterEndpoints))"
    unfolding e converged_def using c(2,3) st o by simp
  show "parentOf (fst (UpdateEndpointSlices k namespace serviceName clusterEndpoints)) namespace serviceName
           = parentOf k namespace serviceName"
    unfolding e using c(4) k1 by simp
qed

lemma converged_run:
  assumes "converged namespace serviceName clusterEndpoints k"
  shows "endpointSlices (fst (UpdateEndpointSlices k namespace serviceName clusterEndpoints)) = endpointSlices k"
    and "calls (fst (UpdateEndpointSlices k namespace serviceName clusterEndpoints)) =
           calls k @ secondRunCalls k namespace serviceName clusterEndpoints"
proof -
  let ?k1 = "updateLoop namespace serviceName clusterEndpoints k"
  have nf: "noFaults k" and wf: "wellFormed k"
    and o: "filter (isOrphan namespace serviceName clusterEndpoints) (endpointSlices k) = []"
    using assms by (simp_all add: converged_def)
  have k1: "noFaults ?k1 \<and> wellFormed ?k1 \<and> endpointSlices ?k1 = endpointSlices k
      \<and> calls ?k1 = calls k @ (case parentOf k namespace serviceName of
            None \<Rightarrow> map (\<lambda>ce. GetService namespace serviceName) clusterEndpoints
          | Some service \<Rightarrow> concat (map (updateCalls namespace serviceName) clusterEndpoints))"
  proof (cases "parentOf k namespace serviceName")
    case None
    then show ?thesis
      using updateLoop_noParent[OF nf None, of clusterEndpoints]
        updateLoop_wellFormed_noParent[OF nf wf None, of clusterEndpoints]
      by simp
  next
    case (Some service)
    have "\<forall>ce \<in> set clusterEndpoints. settled namespace serviceName ce k"
      using assms Some by (simp add: converged_def list_all_iff)
    then show ?thesis
      using updateLoop_settled[OF nf wf Some, of clusterEndpoints] Some nf wf
      by (simp add: wellFormed_def)
  qed
  then have nf1: "noFaults ?k1" and wf1: "wellFormed ?k1" by simp_all
  have e: "fst (UpdateEndpointSlices k namespace serviceName clusterEndpoints) =
      fst (cleanupOrphanedSlices ?k1 namespace serviceName clusterEndpoints)"
    by (rule UpdateEndpointSlices_noFaults[OF nf1 wf1])
  note c = cleanup_effect[OF nf1 wf1, of namespace serviceName clusterEndpoints]
  have o1: "filter (isOrphan namespace serviceName clusterEndpoints) (endpointSlices ?k1) = []"
    using o k1 by simp
  have keep: "filter (\<lambda>s. \<not> isOrphan namespace serviceName clusterEndpoints s) (endpointSlices ?k1)
      = endpointSlices ?k1"
    using o1 by (simp add: filter_empty_conv)
  show "endpointSlices (fst (UpdateEndpointSlices k namespace serviceName clusterEndpoints)) = endpointSlices k"
    unfolding e c(5) keep using k1 by simp
  show "calls (fst (UpdateEndpointSlices k namespace serviceName clusterEndpoints)) =
           calls k @ secondRunCalls k namespace serviceName clusterEndpoints"
    unfolding e c(6) o1 using k1 by (simp add: secondRunCalls_def)
qed

lemma filter_isWriteCall_secondRunCalls:
  "filter isWriteCall (secondRunCalls k namespace serviceName clusterEndpoints) =
     (case parentOf k namespace serviceName of
        None \<Rightarrow> []
      | Some service \<Rightarrow>
          map (\<lambda>ce. UpdateSlice namespace (sliceName serviceName (ClusterName ce))) clusterEndpoints)"
  by (induction clusterEndpoints)
     (simp_all add: secondRunCalls_def isWriteCall_def updateCalls_def split: option.splits)

lemma example_fresh:
  "UpdateEndpointSlices freshStore ''default'' ''web'' [groupOf ''x'' [''10.1.0.1'']] =
     (freshStore\<lparr>calls := [GetService ''default'' ''web'', GetSlice ''default'' ''web-svclink-x'',
                            CreateSlice ''default'' ''web-svclink-x'',
                            ListSlices ''default'' (cleanupSelector ''web'')],
                  endpointSlices := [managedSlice ''web'' ''x'' [''10.1.0.1'']]\<rparr>, None)"
  "UpdateEndpointSlices
     (freshStore\<lparr>calls := [GetService ''default'' ''web'', GetSlice ''default'' ''web-svclink-x'',
                            CreateSlice ''default'' ''web-svclink-x'',
                            ListSlices ''default'' (cleanupSelector ''web'')],
                  endpointSlices := [managedSlice ''web'' ''x'' [''10.1.0.1'']]\<rparr>)
     ''default'' ''web'' [groupOf ''x'' [''10.1.0.1'']] =
     (freshStore\<lparr>calls := [GetService ''default'' ''web'', GetSlice ''default'' ''web-svclink-x'',
                            CreateSlice ''default'' ''web-svclink-x'',
                            ListSlices ''default'' (cleanupSelector ''web''),
                            GetService ''default'' ''web'', GetSlice ''default'' ''web-svclink-x'',
                            UpdateSlice ''default'' ''web-svclink-x'',
                            ListSlices ''default'' (cleanupSelector ''web'')],
                  endpointSlices := [managedSlice ''web'' ''x'' [''10.1.0.1'']]\<rparr>, None)"
  by (simp_all add: reconcile_defs freshStore_def cleanupSelector_def store_defs)

text \<open>
  C2 (as amended). Reconciling twice. On a well-formed store that answers without faults,
  with groups of distinct cluster names, a second run of \<^verbatim>\<open>UpdateEndpointSlices\<close> with
  the same groups leaves the stored slices as the first run left them and makes no create
  and no delete call. It is not silent: when the parent service exists it fetches and
  updates the slice of every group again, one update call per group, each writing what is
  already stored; when the parent is missing it makes no write call at all.
\<close>

theorem reconcile_twice_only_updates:
  assumes "noFaults k" and "wellFormed k" and "distinct (map ClusterName clusterEndpoints)"
  shows "endpointSlices (fst (UpdateEndpointSlices
             (fst (UpdateEndpointSlices k namespace serviceName clusterEndpoints))
             namespace serviceName clusterEndpoints)) =
         endpointSlices (fst (UpdateEndpointSlices k namespace serviceName clusterEndpoints))
    \<and> calls (fst (UpdateEndpointSlices
             (fst (UpdateEndpointSlices k namespace serviceName clusterEndpoints))
             namespace serviceName clusterEndpoints)) =
         calls (fst (UpdateEndpointSlices k namespace serviceName clusterEndpoints))
           @ secondRunCalls k namespace serviceName clusterEndpoints
    \<and> filter isWriteCall (secondRunCalls k namespace serviceName clusterEndpoints) =
         (case parentOf k namespace serviceName of
            None \<Rightarrow> []
          | Some service \<Rightarrow>
              map (\<lambda>ce. UpdateSlice namespace (sliceName serviceName (ClusterName ce)))
                clusterEndpoints)"
proof -
  let ?k1 = "fst (UpdateEndpointSlices k namespace serviceName clusterEndpoints)"
  note f = first_run_converges[OF assms, of namespace serviceName]
  note r = converged_run[OF f(1)]
  have "secondRunCalls ?k1 namespace serviceName clusterEndpoints =
      secondRunCalls k namespace serviceName clusterEndpoints"
    using f(2) by (simp add: secondRunCalls_def)
  then show ?thesis
    using r filter_isWriteCall_secondRunCalls[of k namespace serviceName clusterEndpoints]
    by simp
qed

theorem reconcile_twice_only_updates_witness:
  "noFaults freshStore \<and> wellFormed freshStore
   \<and> distinct (map ClusterName [groupOf ''x'' [''10.1.0.1'']])
   \<and> endpointSlices (fst (UpdateEndpointSlices
         (fst (UpdateEndpointSlices freshStore ''default'' ''web'' [groupOf ''x'' [''10.1.0.1'']]))
         ''default'' ''web'' [groupOf ''x'' [''10.1.0.1'']])) =
       [managedSlice ''web'' ''x'' [''10.1.0.1'']]
   \<and> endpointSlices (fst (UpdateEndpointSlices freshStore ''default'' ''web''
         [groupOf ''x'' [''10.1.0.1'']])) = [managedSlice ''web'' ''x'' [''10.1.0.1'']]
   \<and> filter isWriteCall (secondRunCalls freshStore ''default'' ''web'' [groupOf ''x'' [''10.1.0.1'']])
       = [UpdateSlice ''default'' ''web-svclink-x'']"
proof -
  have h: "noFaults freshStore" "wellFormed freshStore"
      "distinct (map ClusterName [groupOf ''x'' [''10.1.0.1'']])"
    by (simp_all add: noFaults_def wellFormed_def freshStore_def kubeWith_def)
  have p: "parentOf freshStore ''default'' ''web'' = Some (webService ''default'')"
    by (simp add: parentOf_def freshStore_def kubeWith_def hasKey_def webService_def)
  have n: "sliceName ''web'' (ClusterName (groupOf ''x'' [''10.1.0.1''])) = ''web-svclink-x''"
    by (simp add: sliceName_def groupOf_def)
  show ?thesis
    using reconcile_twice_only_updates[OF h, of "''default''" "''web''"] h p n
    by (simp add: example_fresh)
qed

text \<open>
  With the local service default/web, no slice and one group for cluster x, the second run
  makes the call that updates web-svclink-x.
\<close>

theorem idempotence_counterexample:
  "filter isWriteCall
     (drop (length (calls (fst (UpdateEndpointSlices freshStore ''default'' ''web''
                                  [groupOf ''x'' [''10.1.0.1'']]))))
        (calls (fst (UpdateEndpointSlices
                       (fst (UpdateEndpointSlices freshStore ''default'' ''web''
                               [groupOf ''x'' [''10.1.0.1'']]))
                       ''default'' ''web'' [groupOf ''x'' [''10.1.0.1'']]))))
     = [UpdateSlice ''default'' ''web-svclink-x'']"
  by (simp add: example_fresh isWriteCall_def)























end
